theory Spec2Isabelle
  imports Main "HOL-Library.AList"
begin

section \<open>Values of the program\<close>

text \<open>
  The script \<^verbatim>\<open>dashboards/scripts/index-refresh.py\<close> works on the values that
  \<^verbatim>\<open>response.json()\<close> returns: \<^verbatim>\<open>None\<close>, booleans, integers, strings, lists and
  dictionaries with string keys. Numbers with a fraction or an exponent (Python floats) are
  outside the model. A dictionary is the list of its items in insertion order; as in Python,
  its keys are pairwise distinct.

  A string is a list of characters, each \<^typ>\<open>char\<close> read as one code point in the range
  U+0000 to U+00FF; the predicates below (\<^verbatim>\<open>str.isalpha\<close>, the word characters of
  \<^verbatim>\<open>re\<close>, case-insensitive comparison) are Python's on that range.
\<close>

datatype json =
    JNull
  | JBool bool
  | JInt int
  | JStr string
  | JArr "json list"
  | JObj "(string \<times> json) list"

text \<open>
  Exceptions. \<open>RequestError\<close> is raised by \<^verbatim>\<open>requests.get\<close> or \<^verbatim>\<open>requests.put\<close>
  itself, \<open>HTTPError\<close> by \<^verbatim>\<open>raise_for_status\<close>, \<open>JSONDecodeError\<close> by
  \<^verbatim>\<open>response.json()\<close>. \<open>DataError\<close> stands for the \<^verbatim>\<open>KeyError\<close>, \<^verbatim>\<open>IndexError\<close>,
  \<^verbatim>\<open>TypeError\<close> or \<^verbatim>\<open>AttributeError\<close> that Python raises when a value does not have
  the shape an operation needs. All four are subclasses of \<^verbatim>\<open>Exception\<close>.
\<close>

datatype exn = RequestError | HTTPError | JSONDecodeError | DataError

subsection \<open>Python's operations on these values\<close>

text \<open>\<^verbatim>\<open>a == b\<close>: \<^verbatim>\<open>True == 1\<close> and \<^verbatim>\<open>False == 0\<close> hold, lists are compared
  element by element, dictionaries item by item regardless of order.\<close>

fun py_eq :: "json \<Rightarrow> json \<Rightarrow> bool" where
  "py_eq JNull JNull = True"
| "py_eq (JBool a) (JBool b) = (a = b)"
| "py_eq (JBool a) (JInt j) = ((if a then 1 else 0) = j)"
| "py_eq (JInt i) (JBool b) = (i = (if b then 1 else 0))"
| "py_eq (JInt i) (JInt j) = (i = j)"
| "py_eq (JStr s) (JStr t) = (s = t)"
| "py_eq (JArr xs) (JArr ys) = list_all2 py_eq xs ys"
| "py_eq (JObj kvs) (JObj kws) =
     (length kvs = length kws \<and>
      list_all (\<lambda>(k, v). list_ex (\<lambda>(k', w). k' = k \<and> py_eq v w) kws) kvs)"
| "py_eq _ _ = False"

text \<open>\<^verbatim>\<open>t in s\<close> for two strings: \<open>t\<close> occurs in \<open>s\<close> as a contiguous piece.\<close>

fun substring_of :: "string \<Rightarrow> string \<Rightarrow> bool" where
  "substring_of t [] = (t = [])"
| "substring_of t (c # cs) = (take (length t) (c # cs) = t \<or> substring_of t cs)"

text \<open>\<^verbatim>\<open>'key' in x\<close> with a string literal on the left.\<close>

fun py_in_str :: "string \<Rightarrow> json \<Rightarrow> exn + bool" where
  "py_in_str k (JObj kvs) = Inr (k \<in> set (map fst kvs))"
| "py_in_str k (JArr xs) = Inr (list_ex (\<lambda>x. py_eq x (JStr k)) xs)"
| "py_in_str k (JStr s) = Inr (substring_of k s)"
| "py_in_str k _ = Inl DataError"

text \<open>\<^verbatim>\<open>xs[i]\<close> on a sequence of length \<open>n\<close>: a negative index counts from the end.\<close>

definition py_index :: "'a list \<Rightarrow> int \<Rightarrow> exn + 'a" where
  "py_index xs i =
     (if 0 \<le> i \<and> i < int (length xs) then Inr (xs ! nat i)
      else if - int (length xs) \<le> i \<and> i < 0 then Inr (xs ! nat (int (length xs) + i))
      else Inl DataError)"

text \<open>\<^verbatim>\<open>x[k]\<close>. A dictionary of this program has string keys only, so any other key is
  missing (or unhashable); a list or string takes an integer (a boolean counts as 0 or 1).\<close>

fun py_getitem :: "json \<Rightarrow> json \<Rightarrow> exn + json" where
  "py_getitem (JObj kvs) (JStr k) =
     (case map_of kvs k of None \<Rightarrow> Inl DataError | Some v \<Rightarrow> Inr v)"
| "py_getitem (JArr xs) (JInt i) = py_index xs i"
| "py_getitem (JArr xs) (JBool b) = py_index xs (if b then 1 else 0)"
| "py_getitem (JStr s) (JInt i) = map_sum id (\<lambda>c. JStr [c]) (py_index s i)"
| "py_getitem (JStr s) (JBool b) =
     map_sum id (\<lambda>c. JStr [c]) (py_index s (if b then 1 else 0))"
| "py_getitem _ _ = Inl DataError"

text \<open>\<^verbatim>\<open>len(x)\<close>.\<close>

fun py_len :: "json \<Rightarrow> exn + nat" where
  "py_len (JArr xs) = Inr (length xs)"
| "py_len (JObj kvs) = Inr (length kvs)"
| "py_len (JStr s) = Inr (length s)"
| "py_len _ = Inl DataError"

text \<open>\<^verbatim>\<open>for x in v\<close>: the elements of a list, the keys of a dictionary, the characters
  of a string.\<close>

fun py_iter :: "json \<Rightarrow> exn + json list" where
  "py_iter (JArr xs) = Inr xs"
| "py_iter (JObj kvs) = Inr (map (\<lambda>(k, v). JStr k) kvs)"
| "py_iter (JStr s) = Inr (map (\<lambda>c. JStr [c]) s)"
| "py_iter _ = Inl DataError"

text \<open>\<^verbatim>\<open>x.append(v)\<close>: only a list has the method.\<close>

fun py_append :: "json \<Rightarrow> json \<Rightarrow> exn + json" where
  "py_append (JArr xs) v = Inr (JArr (xs @ [v]))"
| "py_append _ v = Inl DataError"

subsection \<open>Characters\<close>

definition isalpha_char :: "char \<Rightarrow> bool" where
  "isalpha_char c =
     (let n = (of_char c :: nat)
      in (65 \<le> n \<and> n \<le> 90) \<or> (97 \<le> n \<and> n \<le> 122) \<or> n = 170 \<or> n = 181 \<or> n = 186
         \<or> (192 \<le> n \<and> n \<le> 214) \<or> (216 \<le> n \<and> n \<le> 246) \<or> (248 \<le> n \<and> n \<le> 255))"

text \<open>\<^verbatim>\<open>s.isalpha()\<close>: at least one character, and all of them alphabetic.\<close>

definition isalpha :: "string \<Rightarrow> bool" where
  "isalpha s = (s \<noteq> [] \<and> list_all isalpha_char s)"

text \<open>\<^verbatim>\<open>x[:1].isalpha()\<close>: a slice of a string is a string; a slice of a list is a
  list, which has no such method; nothing else can be sliced.\<close>

fun first_isalpha :: "json \<Rightarrow> exn + bool" where
  "first_isalpha (JStr s) = Inr (isalpha (take 1 s))"
| "first_isalpha _ = Inl DataError"

text \<open>A word character of \<^verbatim>\<open>re\<close> (\<^verbatim>\<open>\w\<close>): alphanumeric or the underscore.\<close>

definition isword_char :: "char \<Rightarrow> bool" where
  "isword_char c =
     (let n = (of_char c :: nat)
      in isalpha_char c \<or> (48 \<le> n \<and> n \<le> 57) \<or> n = 95
         \<or> n = 178 \<or> n = 179 \<or> n = 185 \<or> n = 188 \<or> n = 189 \<or> n = 190)"

definition lower_char :: "char \<Rightarrow> char" where
  "lower_char c =
     (let n = (of_char c :: nat)
      in if (65 \<le> n \<and> n \<le> 90) \<or> (192 \<le> n \<and> n \<le> 214) \<or> (216 \<le> n \<and> n \<le> 222)
         then char_of (n + 32) else c)"

text \<open>Comparison of two characters under \<^verbatim>\<open>re.IGNORECASE\<close>.\<close>

definition ci_eq :: "char \<Rightarrow> char \<Rightarrow> bool" where
  "ci_eq c d = (lower_char c = lower_char d)"

section \<open>Regular expressions\<close>

text \<open>
  The fragment of \<^verbatim>\<open>re\<close> that the script's patterns use, all compiled with
  \<^verbatim>\<open>re.IGNORECASE\<close>: a literal character, a character class, sequence, alternation,
  \<^verbatim>\<open>?\<close>, and the assertions \<^verbatim>\<open>^\<close>, \<^verbatim>\<open>$\<close> and \<^verbatim>\<open>\b\<close>.
\<close>

datatype regex =
    Lit char
  | Cls "char list"
  | Seq "regex list"
  | Alt "regex list"
  | Opt regex
  | Bol
  | Eol
  | Wordb

text \<open>A literal string is the sequence of its characters.\<close>

definition lit :: "string \<Rightarrow> regex" where
  "lit s = Seq (map Lit s)"

text \<open>
  \<open>rmatch r s i\<close> lists the positions at which a match of \<open>r\<close> that starts at position
  \<open>i\<close> of \<open>s\<close> can end. \<^verbatim>\<open>$\<close> holds at the end of the string and before a newline that
  is its last character; \<^verbatim>\<open>\b\<close> holds where exactly one of the two neighbours is a word
  character.
\<close>

definition word_at :: "string \<Rightarrow> nat \<Rightarrow> bool" where
  "word_at s i = (i < length s \<and> isword_char (s ! i))"

fun rmatch :: "regex \<Rightarrow> string \<Rightarrow> nat \<Rightarrow> nat list" where
  "rmatch (Lit c) s i = (if i < length s \<and> ci_eq (s ! i) c then [Suc i] else [])"
| "rmatch (Cls cs) s i =
     (if i < length s \<and> list_ex (ci_eq (s ! i)) cs then [Suc i] else [])"
| "rmatch (Seq rs) s i = fold (\<lambda>r ps. concat (map (rmatch r s) ps)) rs [i]"
| "rmatch (Alt rs) s i = concat (map (\<lambda>r. rmatch r s i) rs)"
| "rmatch (Opt a) s i = rmatch a s i @ [i]"
| "rmatch Bol s i = (if i = 0 then [i] else [])"
| "rmatch Eol s i =
     (if i = length s \<or> (Suc i = length s \<and> s ! i = CHR 0x0A) then [i] else [])"
| "rmatch Wordb s i =
     (if (0 < i \<and> word_at s (i - 1)) \<noteq> word_at s i then [i] else [])"

text \<open>\<^verbatim>\<open>re.search(r, s, re.IGNORECASE) is not None\<close>: a match starts somewhere.\<close>

definition re_search :: "regex \<Rightarrow> string \<Rightarrow> bool" where
  "re_search r s = list_ex (\<lambda>i. rmatch r s i \<noteq> []) [0..<Suc (length s)]"

subsection \<open>The patterns of the drilldown rules\<close>

text \<open>\<^verbatim>\<open>[_\.-]\<close>, and \<^verbatim>\<open>[\b_\.-]\<close>, where \<^verbatim>\<open>\b\<close> inside a class is the backspace
  character.\<close>

definition sep :: regex where
  "sep = Cls ''_.-''"

definition sepb :: regex where
  "sepb = Cls (CHR 0x08 # ''_.-'')"

text \<open>\<^verbatim>\<open>[_\.-](h|ip)$\<close>\<close>

definition pat_ip_host :: regex where
  "pat_ip_host = Seq [sep, Alt [lit ''h'', lit ''ip''], Eol]"

text \<open>\<^verbatim>\<open>(^|[\b_\.-])(md5|sha(1|256|384|512))\b\<close>\<close>

definition pat_hash :: regex where
  "pat_hash =
     Seq [Alt [Bol, sepb],
          Alt [lit ''md5'',
               Seq [lit ''sha'', Alt [lit ''1'', lit ''256'', lit ''384'', lit ''512'']]],
          Wordb]"

text \<open>\<^verbatim>\<open>(^|[\b_\.-])(hit|signature(_?id))?s?$\<close>\<close>

definition pat_hit :: regex where
  "pat_hit =
     Seq [Alt [Bol, sepb],
          Opt (Alt [lit ''hit'',
                    Seq [lit ''signature'', Seq [Opt (Lit (CHR ''_'')), lit ''id'']]]),
          Opt (Lit (CHR ''s'')),
          Eol]"

text \<open>\<^verbatim>\<open>(^|src|dst|source|dest|destination|[\b_\.-])p(ort)?s?$\<close>\<close>

definition pat_port :: regex where
  "pat_port =
     Seq [Alt [Bol, lit ''src'', lit ''dst'', lit ''source'', lit ''dest'',
               lit ''destination'', sepb],
          Lit (CHR ''p''),
          Opt (lit ''ort''),
          Opt (Lit (CHR ''s'')),
          Eol]"

text \<open>\<^verbatim>\<open>^(protocol?|network\.protocol)$\<close>\<close>

definition pat_protocol :: regex where
  "pat_protocol =
     Seq [Bol,
          Alt [Seq [lit ''protoco'', Opt (Lit (CHR ''l''))], lit ''network.protocol''],
          Eol]"

text \<open>\<^verbatim>\<open>^(network\.transport|ipProtocol)$\<close>\<close>

definition pat_transport :: regex where
  "pat_transport = Seq [Bol, Alt [lit ''network.transport'', lit ''ipProtocol''], Eol]"

text \<open>\<^verbatim>\<open>(as\.number|(src|dst)ASN|asn\.(src|dst))$\<close>\<close>

definition pat_asn :: regex where
  "pat_asn =
     Seq [Alt [lit ''as.number'',
               Seq [Alt [lit ''src'', lit ''dst''], lit ''ASN''],
               Seq [lit ''asn.'', Alt [lit ''src'', lit ''dst'']]],
          Eol]"

text \<open>\<^verbatim>\<open>mime[_\.-]?type\<close>\<close>

definition pat_mime :: regex where
  "pat_mime = Seq [lit ''mime'', Opt sep, lit ''type'']"

text \<open>\<^verbatim>\<open>(^zeek\.files\.extracted$)\<close>\<close>

definition pat_extracted :: regex where
  "pat_extracted = Seq [Bol, lit ''zeek.files.extracted'', Eol]"

section \<open>Drilldown classification\<close>

text \<open>An exception ends the computation; otherwise the next step runs on the value.\<close>

definition and_then :: "exn + 'a \<Rightarrow> ('a \<Rightarrow> exn + 'b) \<Rightarrow> exn + 'b" where
  "and_then m f = (case m of Inl e \<Rightarrow> Inl e | Inr x \<Rightarrow> f x)"

text \<open>
  One entry of \<^verbatim>\<open>fieldFormatMap\<close> is
  \<^verbatim>\<open>{'id': 'drilldown', 'params': {'urlTemplates': [None, {'url': .., 'label': ..}, ..]}}\<close>.
\<close>

record link =
  url :: string
  label :: string

record drilldownInfoParams =
  urlTemplates :: "link option list"

record drilldownInfo =
  info_id :: string
  params :: drilldownInfoParams

text \<open>\<^verbatim>\<open>s.startswith(p)\<close>\<close>

definition startswith :: "string \<Rightarrow> string \<Rightarrow> bool" where
  "startswith s p = (take (length p) s = p)"

text \<open>Lines 182 to 186: the link that queries Arkime for the field's value.\<close>

definition valQuote :: "json \<Rightarrow> string" where
  "valQuote ty = (if py_eq ty (JStr ''string'') then [CHR 0x22] else [])"

definition valDbPrefix :: "string \<Rightarrow> string" where
  "valDbPrefix name = (if startswith name ''zeek'' then [] else ''db:'')"

definition arkime_link :: "string \<Rightarrow> json \<Rightarrow> link" where
  "arkime_link name ty =
     \<lparr>url = ''/idkib2ark/'' @ valDbPrefix name @ name @ '' == '' @ valQuote ty
              @ ''{{value}}'' @ valQuote ty,
      label = ''Arkime '' @ name @ '': '' @ valQuote ty @ ''{{value}}'' @ valQuote ty\<rparr>"

text \<open>Lines 189 to 255: the links of the first branch of the chain whose test holds.\<close>

definition virustotal_ip_link :: link where
  "virustotal_ip_link =
     \<lparr>url = ''https://www.virustotal.com/en/ip-address/{{value}}/information/'',
      label = ''VirusTotal IP: {{value}}''\<rparr>"

definition virustotal_hash_link :: link where
  "virustotal_hash_link =
     \<lparr>url = ''https://www.virustotal.com/gui/file/{{value}}/detection'',
      label = ''VirusTotal Hash: {{value}}''\<rparr>"

definition web_search_link :: link where
  "web_search_link =
     \<lparr>url = ''https://duckduckgo.com/?q='' @ [CHR 0x22] @ ''{{value}}'' @ [CHR 0x22],
      label = ''Web Search: {{value}}''\<rparr>"

definition port_registry_link :: link where
  "port_registry_link =
     \<lparr>url = ''https://www.iana.org/assignments/service-names-port-numbers/service-names-port-numbers.xhtml?search={{value}}'',
      label = ''Port Registry: {{value}}''\<rparr>"

definition service_registry_link :: link where
  "service_registry_link =
     \<lparr>url = ''https://www.iana.org/assignments/service-names-port-numbers/service-names-port-numbers.xhtml?search={{value}}'',
      label = ''Service Registry: {{value}}''\<rparr>"

definition protocol_registry_link :: link where
  "protocol_registry_link =
     \<lparr>url = ''https://www.iana.org/assignments/protocol-numbers/protocol-numbers.xhtml'',
      label = ''Protocol Registry''\<rparr>"

definition arin_asn_link :: link where
  "arin_asn_link =
     \<lparr>url = ''https://search.arin.net/rdap/?query={{value}}&searchFilter=asn'',
      label = ''ARIN ASN: {{value}}''\<rparr>"

definition media_type_link :: link where
  "media_type_link =
     \<lparr>url = ''https://www.iana.org/assignments/media-types/{{value}}'',
      label = ''Media Type Registry: {{value}}''\<rparr>"

definition download_quarantined_link :: link where
  "download_quarantined_link =
     \<lparr>url = ''/dl-extracted-files/quarantine/{{value}}'',
      label = ''Download (if quarantined)''\<rparr>"

definition download_preserved_link :: link where
  "download_preserved_link =
     \<lparr>url = ''/dl-extracted-files/preserved/{{value}}'',
      label = ''Download (if preserved)''\<rparr>"

definition appended_links :: "string \<Rightarrow> json \<Rightarrow> link list" where
  "appended_links name ty =
     (if py_eq ty (JStr ''ip'') \<or> re_search pat_ip_host name then [virustotal_ip_link]
      else if re_search pat_hash name then [virustotal_hash_link]
      else if re_search pat_hit name then [web_search_link]
      else if re_search pat_port name then [port_registry_link]
      else if re_search pat_protocol name then [service_registry_link]
      else if re_search pat_transport name then [protocol_registry_link]
      else if re_search pat_asn name then [arin_asn_link]
      else if re_search pat_mime name then [media_type_link]
      else if re_search pat_extracted name
        then [download_quarantined_link, download_preserved_link]
      else [])"

definition drilldownInfoParamsUrlTemplates :: "string \<Rightarrow> json \<Rightarrow> link option list" where
  "drilldownInfoParamsUrlTemplates name ty =
     [None, Some (arkime_link name ty)] @ map Some (appended_links name ty)"

text \<open>
  The body of the loop of lines 178 to 264 on one field: \<open>None\<close> when the field gets no
  entry, otherwise the key and the entry stored under it. \<^verbatim>\<open>field['name']\<close> and
  \<^verbatim>\<open>field['type']\<close> raise when the key is missing or \<open>field\<close> is no dictionary; a name
  whose first character passed \<^verbatim>\<open>isalpha\<close> is a string.
\<close>

definition drilldown :: "json \<Rightarrow> exn + (string \<times> drilldownInfo) option" where
  "drilldown field =
     and_then (py_getitem field (JStr ''name'')) (\<lambda>nm.
     and_then (first_isalpha nm) (\<lambda>alpha.
       if alpha then
         and_then (py_getitem field (JStr ''type'')) (\<lambda>ty.
           case nm of
             JStr name \<Rightarrow>
               Inr (Some (name,
                 \<lparr>info_id = ''drilldown'',
                  params = \<lparr>urlTemplates = drilldownInfoParamsUrlTemplates name ty\<rparr>\<rparr>))
           | _ \<Rightarrow> Inl DataError)
       else Inr None))"

text \<open>The loop: \<^verbatim>\<open>fieldFormatMap[field['name']] = drilldownInfo\<close> replaces the value of a
  key that is present and appends a new key otherwise. The first exception ends the loop.\<close>

fun fieldFormatMap_loop ::
  "json list \<Rightarrow> (string \<times> drilldownInfo) list \<Rightarrow> exn + (string \<times> drilldownInfo) list" where
  "fieldFormatMap_loop [] m = Inr m"
| "fieldFormatMap_loop (field # rest) m =
     and_then (drilldown field) (\<lambda>r.
       fieldFormatMap_loop rest
         (case r of None \<Rightarrow> m | Some (k, v) \<Rightarrow> AList.update k v m))"

definition fieldFormatMap :: "json \<Rightarrow> exn + (string \<times> drilldownInfo) list" where
  "fieldFormatMap getFieldsList =
     and_then (py_iter getFieldsList) (\<lambda>fs. fieldFormatMap_loop fs [])"

subsection \<open>The rule table as the specification words it\<close>

text \<open>
  The specification describes the classifier as an ordered list of categories, each with a
  test on the field and the links it contributes, of which the first whose test holds is
  applied: IP/host suffix or \<open>ip\<close> type, hash-algorithm name, hit/signature name, port
  name, protocol name, transport-protocol name, AS-number name, MIME-type name,
  extracted-file-path name.
\<close>

datatype category =
    IpHost
  | HashAlgorithm
  | HitSignature
  | Port
  | Protocol
  | TransportProtocol
  | AsNumber
  | MimeType
  | ExtractedFilePath

definition category_order :: "category list" where
  "category_order =
     [IpHost, HashAlgorithm, HitSignature, Port, Protocol, TransportProtocol, AsNumber,
      MimeType, ExtractedFilePath]"

fun category_test :: "category \<Rightarrow> string \<Rightarrow> json \<Rightarrow> bool" where
  "category_test IpHost name ty = (py_eq ty (JStr ''ip'') \<or> re_search pat_ip_host name)"
| "category_test HashAlgorithm name ty = re_search pat_hash name"
| "category_test HitSignature name ty = re_search pat_hit name"
| "category_test Port name ty = re_search pat_port name"
| "category_test Protocol name ty = re_search pat_protocol name"
| "category_test TransportProtocol name ty = re_search pat_transport name"
| "category_test AsNumber name ty = re_search pat_asn name"
| "category_test MimeType name ty = re_search pat_mime name"
| "category_test ExtractedFilePath name ty = re_search pat_extracted name"

fun category_links :: "category \<Rightarrow> link list" where
  "category_links IpHost = [virustotal_ip_link]"
| "category_links HashAlgorithm = [virustotal_hash_link]"
| "category_links HitSignature = [web_search_link]"
| "category_links Port = [port_registry_link]"
| "category_links Protocol = [service_registry_link]"
| "category_links TransportProtocol = [protocol_registry_link]"
| "category_links AsNumber = [arin_asn_link]"
| "category_links MimeType = [media_type_link]"
| "category_links ExtractedFilePath = [download_quarantined_link, download_preserved_link]"

text \<open>The links of the first category in the order whose test holds, if there is one.\<close>

definition first_category_links :: "string \<Rightarrow> json \<Rightarrow> link list" where
  "first_category_links name ty =
     (case find (\<lambda>c. category_test c name ty) category_order of
        None \<Rightarrow> []
      | Some c \<Rightarrow> category_links c)"

section \<open>The template merge\<close>

text \<open>Line 102: \<^verbatim>\<open>[field['name'] for field in getFieldsList if 'name' in field]\<close>.\<close>

fun names_of :: "json list \<Rightarrow> exn + json list" where
  "names_of [] = Inr []"
| "names_of (field # rest) =
     and_then (py_in_str ''name'' field) (\<lambda>has.
       if has then
         and_then (py_getitem field (JStr ''name'')) (\<lambda>nm.
         and_then (names_of rest) (\<lambda>nms. Inr (nm # nms)))
       else names_of rest)"

definition fieldsNames_of :: "json \<Rightarrow> exn + json list" where
  "fieldsNames_of getFieldsList = and_then (py_iter getFieldsList) names_of"

definition mergeFieldTypes :: "string list" where
  "mergeFieldTypes =
     [''date'', ''float'', ''integer'', ''ip'', ''keyword'', ''long'', ''short'', ''text'']"

text \<open>Lines 123 to 138: the field dictionary built for a template field of type \<open>ty\<close>.\<close>

definition mergedFieldInfo :: "json \<Rightarrow> json \<Rightarrow> json" where
  "mergedFieldInfo field ty =
     (let aggregatable = \<not> list_ex (\<lambda>x. py_eq x (JStr ''text'')) [ty]
      in JObj [(''name'', field),
               (''esTypes'', JArr [ty]),
               (''type'',
                  if py_eq ty (JStr ''float'') \<or> py_eq ty (JStr ''integer'')
                     \<or> py_eq ty (JStr ''long'') \<or> py_eq ty (JStr ''short'')
                  then JStr ''number''
                  else if py_eq ty (JStr ''keyword'') \<or> py_eq ty (JStr ''text'')
                  then JStr ''string''
                  else ty),
               (''searchable'', JBool True),
               (''aggregatable'', JBool aggregatable),
               (''readFromDocValues'', JBool aggregatable)])"

text \<open>
  Lines 118 to 140, the body of the merge loop on one template field. It works on the two
  lists \<open>fieldsNames\<close> and \<open>getFieldsList\<close>; the conjunction of line 118 stops at its first
  false operand.
\<close>

definition merge_field :: "json \<Rightarrow> json \<Rightarrow> json list \<times> json \<Rightarrow> exn + json list \<times> json" where
  "merge_field getTemplateInfo field st =
     (case st of (fieldsNames, getFieldsList) \<Rightarrow>
        if list_ex (\<lambda>n. py_eq n field) fieldsNames then Inr st
        else
          and_then (py_getitem getTemplateInfo field) (\<lambda>decl.
          and_then (py_in_str ''type'' decl) (\<lambda>has.
            if \<not> has then Inr st
            else
              and_then (py_getitem decl (JStr ''type'')) (\<lambda>ty.
                if \<not> list_ex (\<lambda>t. py_eq (JStr t) ty) mergeFieldTypes then Inr st
                else
                  and_then (py_append getFieldsList (mergedFieldInfo field ty))
                    (\<lambda>getFieldsList'. Inr (fieldsNames @ [field], getFieldsList'))))))"

text \<open>
  The loop of line 116. The lists are changed in place, so when an iteration raises, what
  the earlier iterations appended stays: the result is the exception, if any, and
  \<open>getFieldsList\<close> as it is then.
\<close>

fun merge_loop :: "json \<Rightarrow> json list \<Rightarrow> json list \<times> json \<Rightarrow> exn option \<times> json" where
  "merge_loop getTemplateInfo [] st = (None, snd st)"
| "merge_loop getTemplateInfo (field # rest) st =
     (case merge_field getTemplateInfo field st of
        Inl e \<Rightarrow> (Some e, snd st)
      | Inr st' \<Rightarrow> merge_loop getTemplateInfo rest st')"

subsection \<open>The merge as the specification words it\<close>

text \<open>
  The specification: a declared field is merged when its low-level type is in the allow-list
  and its name is not already present; the synthesized descriptor has semantic type
  \<open>number\<close> for float, integer, long and short, \<open>string\<close> for keyword and text, and the
  low-level type otherwise; it is searchable; it is aggregatable unless the low-level type
  is \<open>text\<close>; \<open>readFromDocValues\<close> is \<open>aggregatable\<close>.
\<close>

definition declared_type :: "json \<Rightarrow> string option" where
  "declared_type decl =
     (case decl of
        JObj kvs \<Rightarrow> (case map_of kvs ''type'' of Some (JStr t) \<Rightarrow> Some t | _ \<Rightarrow> None)
      | _ \<Rightarrow> None)"

definition eligible :: "json list \<Rightarrow> string \<times> json \<Rightarrow> bool" where
  "eligible present kv =
     (JStr (fst kv) \<notin> set present \<and>
      (case declared_type (snd kv) of
         None \<Rightarrow> False
       | Some t \<Rightarrow> t \<in> {''date'', ''float'', ''integer'', ''ip'', ''keyword'', ''long'',
                        ''short'', ''text''}))"

definition semantic_type :: "string \<Rightarrow> string" where
  "semantic_type t =
     (if t \<in> {''float'', ''integer'', ''long'', ''short''} then ''number''
      else if t \<in> {''keyword'', ''text''} then ''string''
      else t)"

definition synthesized :: "string \<times> json \<Rightarrow> json" where
  "synthesized kv =
     (let t = the (declared_type (snd kv))
      in JObj [(''name'', JStr (fst kv)),
               (''esTypes'', JArr [JStr t]),
               (''type'', JStr (semantic_type t)),
               (''searchable'', JBool True),
               (''aggregatable'', JBool (t \<noteq> ''text'')),
               (''readFromDocValues'', JBool (t \<noteq> ''text''))])"

section \<open>The run\<close>

text \<open>
  The parsed command line (lines 43 to 57). A run starts after \<^verbatim>\<open>parse_args\<close> has
  succeeded; when it fails the script prints the help and exits with status 2 before any
  request.
\<close>

record args =
  debug :: bool
  index :: string
  dashboardsUrl :: string
  opensearchUrl :: string
  template :: "string option"
  dryrun :: bool

text \<open>
  The \<^verbatim>\<open>Response\<close> object that a call of \<^verbatim>\<open>requests.get\<close> or \<^verbatim>\<open>requests.put\<close>
  returns: the status code and the body, the body given by what \<^verbatim>\<open>response.json()\<close>
  makes of it (\<open>None\<close> when it is no JSON document).
\<close>

record response =
  status_code :: nat
  json_body :: "json option"

text \<open>
  What happens on the network during one call. The script calls \<^verbatim>\<open>requests\<close> with its
  defaults (no \<^verbatim>\<open>allow_redirects=False\<close>, no \<^verbatim>\<open>stream=True\<close>), so the client follows
  redirects, each with a further HTTP request, and reads and decodes the whole body before
  the call returns.
  \<^item> \<open>Refused\<close>: the call raises with nothing sent (a URL that the client cannot use, a
    header value with a line break, no connection).
  \<^item> \<open>Failed k\<close>: the client sends a request and \<open>k\<close> further ones, and then the call
    raises without an answer (the connection is lost, there are too many redirects).
  \<^item> \<open>Answered k a\<close>: the client sends a request and \<open>k\<close> further ones, and receives
    the answer \<open>a\<close> to the last of them; the call raises when the body of \<open>a\<close> cannot
    be read or decoded (a transfer cut short, a content encoding that does not fit) and
    returns the response otherwise.

  The further requests of a call are one for every redirect that the client follows, and
  one for the tunnel where the environment sends the call through a proxy.
\<close>

datatype body = Unreadable | Readable "json option"

record answer =
  answer_status :: nat
  answer_body :: body

datatype exchange = Refused | Failed nat | Answered nat answer

text \<open>The number of HTTP requests that the exchange puts on the wire.\<close>

fun sent :: "exchange \<Rightarrow> nat" where
  "sent Refused = 0"
| "sent (Failed k) = Suc k"
| "sent (Answered k a) = Suc k"

text \<open>The number of requests after the first.\<close>

fun further :: "exchange \<Rightarrow> nat" where
  "further Refused = 0"
| "further (Failed k) = k"
| "further (Answered k a) = k"

text \<open>The response that the call returns, \<open>None\<close> when it raises.\<close>

fun returns :: "exchange \<Rightarrow> response option" where
  "returns Refused = None"
| "returns (Failed k) = None"
| "returns (Answered k a) =
     (case answer_body a of
        Unreadable \<Rightarrow> None
      | Readable j \<Rightarrow> Some \<lparr>status_code = answer_status a, json_body = j\<rparr>)"

text \<open>
  The outside world of one run: the exchange at each of the six places where the script
  calls \<^verbatim>\<open>requests\<close>.
\<close>

record env =
  status_reply :: exchange
  opensearch_reply :: exchange
  find_reply :: exchange
  fields_reply :: exchange
  template_reply :: exchange
  put_reply :: exchange

text \<open>
  The body of the write request, \<^verbatim>\<open>putIndexInfo['attributes']\<close>. The script passes the
  field list and the format map through \<^verbatim>\<open>json.dumps\<close>; the model keeps the values that
  are serialised.
\<close>

record putIndexInfo =
  title :: string
  fields_dumped :: json
  fieldFormatMap_dumped :: "(string \<times> drilldownInfo) list"

text \<open>
  The arguments of a call of \<^verbatim>\<open>requests.get\<close> or \<^verbatim>\<open>requests.put\<close>.
  \<open>Get url params\<close>; \<open>Put url indexId headers body\<close> is the write to the URL \<open>url\<close>
  followed by \<^verbatim>\<open>/\<close> and the formatted \<open>indexId\<close>.
\<close>

datatype request =
    Get string "(string \<times> string list) list"
  | Put string json "(string \<times> json) list" putIndexInfo

text \<open>
  The header values that the client takes: a string is sent (whether the client takes
  the string at hand is part of the exchange), a header whose value is \<^verbatim>\<open>None\<close> is left
  out, and for any other value (a number, a truth value, a list, a dictionary) the client
  raises \<^verbatim>\<open>InvalidHeader\<close> before it sends anything. The script sets headers in the write
  only, and \<^verbatim>\<open>osd-version\<close> is whatever JSON value the status answer has under
  \<^verbatim>\<open>version.number\<close>.
\<close>

fun header_value_taken :: "json \<Rightarrow> bool" where
  "header_value_taken (JStr s) = True"
| "header_value_taken JNull = True"
| "header_value_taken v = False"

fun acceptable :: "request \<Rightarrow> bool" where
  "acceptable (Get u ps) = True"
| "acceptable (Put u i h b) = list_all header_value_taken (map snd h)"

text \<open>
  A line on standard error: the format string of the \<^verbatim>\<open>eprint\<close> call and the values
  formatted into it. How \<^verbatim>\<open>str.format\<close> renders a value is not modelled.
\<close>

datatype fmtarg =
    AStr string
  | AJson json
  | ANat nat
  | AExn exn
  | AScriptPath
  | AArgv
  | AArgs args

type_synonym logline = "string \<times> fmtarg list"

text \<open>
  What a run does that can be seen from outside, in the order in which it does it:
  \<open>Call rq n\<close> is a call of \<^verbatim>\<open>requests.get\<close> or \<^verbatim>\<open>requests.put\<close> with the arguments
  \<open>rq\<close> that puts \<open>n\<close> HTTP requests on the wire.
\<close>

datatype event =
    Call request nat
  | Stdout string
  | Stderr logline

text \<open>A step of the run returns a value or raises, and leaves the events it caused.\<close>

type_synonym 'a prog = "(exn + 'a) \<times> event list"

definition ret :: "'a \<Rightarrow> 'a prog" where
  "ret x = (Inr x, [])"

definition lift :: "exn + 'a \<Rightarrow> 'a prog" where
  "lift r = (r, [])"

definition bnd :: "'a prog \<Rightarrow> ('a \<Rightarrow> 'b prog) \<Rightarrow> 'b prog" where
  "bnd m f =
     (case m of
        (Inl e, evs) \<Rightarrow> (Inl e, evs)
      | (Inr x, evs) \<Rightarrow> (case f x of (r, evs') \<Rightarrow> (r, evs @ evs')))"

text \<open>\<^verbatim>\<open>try: m except Exception as e: h e\<close>\<close>

definition catch :: "'a prog \<Rightarrow> (exn \<Rightarrow> 'a prog) \<Rightarrow> 'a prog" where
  "catch m h =
     (case m of
        (Inl e, evs) \<Rightarrow> (case h e of (r, evs') \<Rightarrow> (r, evs @ evs'))
      | (Inr x, evs) \<Rightarrow> (Inr x, evs))"

definition when_do :: "bool \<Rightarrow> unit prog \<Rightarrow> unit prog" where
  "when_do b m = (if b then m else ret ())"

definition eprint :: "logline \<Rightarrow> unit prog" where
  "eprint l = (Inr (), [Stderr l])"

definition print :: "string \<Rightarrow> unit prog" where
  "print s = (Inr (), [Stdout s])"

text \<open>\<^verbatim>\<open>requests.get\<close> and \<^verbatim>\<open>requests.put\<close>: arguments that the client does not
  accept make the call raise with nothing sent; otherwise the exchange takes place, and the
  call returns the response or raises.\<close>

definition issue :: "request \<Rightarrow> exchange \<Rightarrow> response prog" where
  "issue rq x =
     (if acceptable rq
      then (case returns x of None \<Rightarrow> Inl RequestError | Some r \<Rightarrow> Inr r, [Call rq (sent x)])
      else (Inl RequestError, [Call rq 0]))"

definition raise_for_status :: "response \<Rightarrow> exn + unit" where
  "raise_for_status r =
     (if 400 \<le> status_code r \<and> status_code r < 600 then Inl HTTPError else Inr ())"

definition response_json :: "response \<Rightarrow> exn + json" where
  "response_json r = (case json_body r of None \<Rightarrow> Inl JSONDecodeError | Some j \<Rightarrow> Inr j)"

definition GET_STATUS_API :: string where
  "GET_STATUS_API = ''api/status''"

definition GET_INDEX_PATTERN_INFO_URI :: string where
  "GET_INDEX_PATTERN_INFO_URI = ''api/saved_objects/_find''"

definition GET_FIELDS_URI :: string where
  "GET_FIELDS_URI = ''api/index_patterns/_fields_for_wildcard''"

definition PUT_INDEX_PATTERN_URI :: string where
  "PUT_INDEX_PATTERN_URI = ''api/saved_objects/index-pattern''"

definition OS_GET_TEMPLATE_URI :: string where
  "OS_GET_TEMPLATE_URI = ''_template''"

subsection \<open>Lines 57 to 92: versions and the identifier of the index pattern\<close>

text \<open>\<^verbatim>\<open>statusInfo['version']['number']\<close>\<close>

definition version_number :: "json \<Rightarrow> exn + json" where
  "version_number statusInfo =
     and_then (py_getitem statusInfo (JStr ''version'')) (\<lambda>v. py_getitem v (JStr ''number''))"

text \<open>Line 90. \<open>JNull\<close> is Python's \<^verbatim>\<open>None\<close>, also when it is the \<open>id\<close> found.\<close>

definition indexId_of :: "json \<Rightarrow> exn + json" where
  "indexId_of getIndexInfo =
     and_then (py_getitem getIndexInfo (JStr ''saved_objects'')) (\<lambda>saved.
     and_then (py_len saved) (\<lambda>n.
       if n > 0 then
         and_then (py_getitem getIndexInfo (JStr ''saved_objects'')) (\<lambda>saved'.
         and_then (py_getitem saved' (JInt 0)) (\<lambda>first.
           py_getitem first (JStr ''id'')))
       else Inr JNull))"

definition status_request :: "args \<Rightarrow> request" where
  "status_request args = Get (dashboardsUrl args @ ''/'' @ GET_STATUS_API) []"

definition opensearch_request :: "args \<Rightarrow> request" where
  "opensearch_request args = Get (opensearchUrl args) []"

definition find_request :: "args \<Rightarrow> request" where
  "find_request args =
     Get (dashboardsUrl args @ ''/'' @ GET_INDEX_PATTERN_INFO_URI)
       [(''type'', [''index-pattern'']),
        (''fields'', [''id'']),
        (''search'', [[CHR 0x22] @ index args @ [CHR 0x22]])]"

text \<open>
  Lines 73 to 75 issue the request to the OpenSearch URL and then read
  \<open>statusInfoResponse\<close> and \<open>statusInfo\<close>, the Dashboards answer, again.
\<close>

definition resolve :: "args \<Rightarrow> env \<Rightarrow> (json \<times> json) prog" where
  "resolve args env =
     bnd (when_do (debug args)
            (bnd (eprint (''{}'', [AScriptPath])) (\<lambda>_.
             bnd (eprint (''Arguments: {}'', [AArgv])) (\<lambda>_.
             eprint (''Arguments: {}'', [AArgs args]))))) (\<lambda>_.
     bnd (issue (status_request args) (status_reply env)) (\<lambda>statusInfoResponse.
     bnd (lift (raise_for_status statusInfoResponse)) (\<lambda>_.
     bnd (lift (response_json statusInfoResponse)) (\<lambda>statusInfo.
     bnd (lift (version_number statusInfo)) (\<lambda>dashboardsVersion.
     bnd (when_do (debug args)
            (eprint (''OpenSearch Dashboards version is {}'', [AJson dashboardsVersion])))
       (\<lambda>_.
     bnd (issue (opensearch_request args) (opensearch_reply env)) (\<lambda>opensearchInfoResponse.
     bnd (lift (response_json statusInfoResponse)) (\<lambda>opensearchInfo.
     bnd (lift (version_number statusInfo)) (\<lambda>opensearchVersion.
     bnd (when_do (debug args)
            (eprint (''OpenSearch version is {}'', [AJson opensearchVersion]))) (\<lambda>_.
     bnd (issue (find_request args) (find_reply env)) (\<lambda>getIndexInfoResponse.
     bnd (lift (raise_for_status getIndexInfoResponse)) (\<lambda>_.
     bnd (lift (response_json getIndexInfoResponse)) (\<lambda>getIndexInfo.
     bnd (lift (indexId_of getIndexInfo)) (\<lambda>indexId.
     bnd (when_do (debug args)
            (eprint (''Index ID for {} is {}'', [AStr (index args), AJson indexId]))) (\<lambda>_.
     ret (dashboardsVersion, indexId))))))))))))))))"

subsection \<open>Lines 96 to 149: the field list and the template\<close>

definition fields_request :: "args \<Rightarrow> request" where
  "fields_request args =
     Get (dashboardsUrl args @ ''/'' @ GET_FIELDS_URI)
       [(''pattern'', [index args]),
        (''meta_fields'', [''_source'', ''_id'', ''_type'', ''_index'', ''_score''])]"

definition fetch_fields :: "args \<Rightarrow> env \<Rightarrow> (json list \<times> json) prog" where
  "fetch_fields args env =
     bnd (issue (fields_request args) (fields_reply env)) (\<lambda>getFieldsResponse.
     bnd (lift (raise_for_status getFieldsResponse)) (\<lambda>_.
     bnd (lift (and_then (response_json getFieldsResponse)
                  (\<lambda>j. py_getitem j (JStr ''fields'')))) (\<lambda>getFieldsList.
     bnd (lift (fieldsNames_of getFieldsList)) (\<lambda>fieldsNames.
     ret (fieldsNames, getFieldsList)))))"

text \<open>Lines 109 to 111.\<close>

definition template_request :: "args \<Rightarrow> string \<Rightarrow> request" where
  "template_request args t =
     Get (opensearchUrl args @ ''/'' @ OS_GET_TEMPLATE_URI @ ''/'' @ t) []"

definition fetch_template :: "args \<Rightarrow> env \<Rightarrow> string \<Rightarrow> json prog" where
  "fetch_template args env t =
     bnd (issue (template_request args t) (template_reply env)) (\<lambda>getTemplateResponse.
     bnd (lift (raise_for_status getTemplateResponse)) (\<lambda>_.
     lift (and_then (response_json getTemplateResponse) (\<lambda>j.
           and_then (py_getitem j (JStr t)) (\<lambda>tpl.
           and_then (py_getitem tpl (JStr ''mappings'')) (\<lambda>mappings.
             py_getitem mappings (JStr ''properties'')))))))"

text \<open>The format string of line 146: \<^verbatim>\<open>"{}" raised for "{}", skipping template merge\<close>.\<close>

definition skipping_message :: string where
  "skipping_message =
     [CHR 0x22] @ ''{}'' @ [CHR 0x22] @ '' raised for '' @ [CHR 0x22] @ ''{}'' @ [CHR 0x22]
     @ '', skipping template merge''"

text \<open>
  Lines 105 to 146. Every exception of the \<^verbatim>\<open>try\<close> block is caught and reported on
  standard error; the value is \<open>getFieldsList\<close> as the block leaves it.
\<close>

definition merge_template :: "args \<Rightarrow> env \<Rightarrow> json list \<times> json \<Rightarrow> json prog" where
  "merge_template args env st =
     (case template args of
        None \<Rightarrow> ret (snd st)
      | Some t \<Rightarrow>
          bnd (catch
                 (bnd (fetch_template args env t) (\<lambda>getTemplateInfo.
                  bnd (lift (py_iter getTemplateInfo)) (\<lambda>fs.
                  ret (merge_loop getTemplateInfo fs st))))
                 (\<lambda>e. ret (Some e, snd st)))
            (\<lambda>r. case r of
                   (None, getFieldsList) \<Rightarrow> ret getFieldsList
                 | (Some e, getFieldsList) \<Rightarrow>
                     bnd (eprint (skipping_message, [AExn e, AStr t]))
                       (\<lambda>_. ret getFieldsList)))"

text \<open>Lines 96 to 271: everything between the test of \<open>indexId\<close> and the write.\<close>

definition index_pattern_update :: "args \<Rightarrow> env \<Rightarrow> putIndexInfo prog" where
  "index_pattern_update args env =
     bnd (fetch_fields args env) (\<lambda>st.
     bnd (merge_template args env st) (\<lambda>getFieldsList.
     bnd (when_do (debug args)
            (bnd (lift (py_len getFieldsList)) (\<lambda>n.
             eprint (''{} would have {} fields'', [AStr (index args), ANat n])))) (\<lambda>_.
     bnd (lift (fieldFormatMap getFieldsList)) (\<lambda>fieldFormatMap'.
     ret \<lparr>title = index args,
          fields_dumped = getFieldsList,
          fieldFormatMap_dumped = fieldFormatMap'\<rparr>))))"

subsection \<open>Lines 273 to 288: writing back and reporting\<close>

definition put_request :: "args \<Rightarrow> json \<Rightarrow> json \<Rightarrow> putIndexInfo \<Rightarrow> request" where
  "put_request args dashboardsVersion indexId info =
     Put (dashboardsUrl args @ ''/'' @ PUT_INDEX_PATTERN_URI) indexId
       [(''Content-Type'', JStr ''application/json''),
        (''osd-xsrf'', JStr ''true''),
        (''osd-version'', dashboardsVersion)]
       info"

definition write_back ::
  "args \<Rightarrow> env \<Rightarrow> json \<Rightarrow> json \<Rightarrow> putIndexInfo \<Rightarrow> unit prog" where
  "write_back args env dashboardsVersion indexId info =
     bnd (if \<not> dryrun args then
            bnd (issue (put_request args dashboardsVersion indexId info) (put_reply env))
              (\<lambda>putResponse. lift (raise_for_status putResponse))
          else ret ()) (\<lambda>_.
     if dryrun args then print ''success (dry run only, no write performed)''
     else print ''success'')"

subsection \<open>\<^verbatim>\<open>main\<close>\<close>

definition failure_message :: "args \<Rightarrow> string" where
  "failure_message args = ''failure (could not find Index ID for '' @ index args @ '')''"

definition main :: "args \<Rightarrow> env \<Rightarrow> unit prog" where
  "main args env =
     bnd (resolve args env) (\<lambda>(dashboardsVersion, indexId).
       if indexId \<noteq> JNull then
         bnd (index_pattern_update args env) (\<lambda>putIndexInfo.
         write_back args env dashboardsVersion indexId putIndexInfo)
       else print (failure_message args))"

text \<open>
  What is seen of a run: the calls of the HTTP client, the number of HTTP requests on the
  wire, the lines on standard output and on standard error, and the exit status, which is
  0 when \<^verbatim>\<open>main\<close> returns and 1 when an exception leaves it.
\<close>

fun calls_of :: "event list \<Rightarrow> request list" where
  "calls_of [] = []"
| "calls_of (Call rq n # evs) = rq # calls_of evs"
| "calls_of (ev # evs) = calls_of evs"

fun outbound :: "event list \<Rightarrow> nat" where
  "outbound [] = 0"
| "outbound (Call rq n # evs) = n + outbound evs"
| "outbound (ev # evs) = outbound evs"

fun stdout_of :: "event list \<Rightarrow> string list" where
  "stdout_of [] = []"
| "stdout_of (Stdout s # evs) = s # stdout_of evs"
| "stdout_of (ev # evs) = stdout_of evs"

fun stderr_of :: "event list \<Rightarrow> logline list" where
  "stderr_of [] = []"
| "stderr_of (Stderr l # evs) = l # stderr_of evs"
| "stderr_of (ev # evs) = stderr_of evs"

text \<open>The field lists that the write calls of a run carry.\<close>

fun written_fields :: "event list \<Rightarrow> json list" where
  "written_fields [] = []"
| "written_fields (Call (Put u i h info) n # evs) = fields_dumped info # written_fields evs"
| "written_fields (ev # evs) = written_fields evs"

definition exit_status :: "unit prog \<Rightarrow> nat" where
  "exit_status r = (case fst r of Inl e \<Rightarrow> 1 | Inr u \<Rightarrow> 0)"

fun is_put :: "request \<Rightarrow> bool" where
  "is_put (Put u i h b) = True"
| "is_put (Get u ps) = False"

subsection \<open>Predicates on the events of a step\<close>

definition every_event :: "(event \<Rightarrow> bool) \<Rightarrow> 'a prog \<Rightarrow> bool" where
  "every_event P m = list_all P (snd m)"

definition issues_at_most :: "nat \<Rightarrow> 'a prog \<Rightarrow> bool" where
  "issues_at_most n m = (length (calls_of (snd m)) \<le> n)"

text \<open>An event that is neither a write call nor a line on standard output.\<close>

fun quiet_get :: "event \<Rightarrow> bool" where
  "quiet_get (Call rq n) = (\<not> is_put rq)"
| "quiet_get (Stdout s) = False"
| "quiet_get (Stderr l) = True"


section \<open>Example inputs\<close>

text \<open>An answer with status 200 and a JSON body to the first request of the call.\<close>

definition ok :: "json \<Rightarrow> exchange" where
  "ok j = Answered 0 \<lparr>answer_status = 200, answer_body = Readable (Some j)\<rparr>"

text \<open>The index pattern \<^verbatim>\<open>test-*\<close>, with a template name and the dry-run flag as
  given.\<close>

definition example_args :: "string option \<Rightarrow> bool \<Rightarrow> args" where
  "example_args t n =
     \<lparr>debug = False, index = ''test-*'',
      dashboardsUrl = ''http://dashboards:5601/dashboards'',
      opensearchUrl = ''http://opensearch:9200'',
      template = t, dryrun = n\<rparr>"

text \<open>The live field
  \<^verbatim>\<open>{"name": "source.ip", "type": "ip", "esTypes": ["ip"], "searchable": true,
   "aggregatable": true, "readFromDocValues": true}\<close>.\<close>

definition source_ip_field :: json where
  "source_ip_field =
     JObj [(''name'', JStr ''source.ip''), (''type'', JStr ''ip''),
           (''esTypes'', JArr [JStr ''ip'']), (''searchable'', JBool True),
           (''aggregatable'', JBool True), (''readFromDocValues'', JBool True)]"

text \<open>The answer to \<^verbatim>\<open>_template/t\<close> with the given \<^verbatim>\<open>properties\<close>.\<close>

definition template_body :: "json \<Rightarrow> json" where
  "template_body properties =
     JObj [(''t'', JObj [(''order'', JInt 0),
                        (''mappings'', JObj [(''properties'', properties)])])]"

text \<open>Well-formed declarations: a \<open>long\<close>, a \<open>text\<close>, a field that the live list already
  has, and a \<open>geo_point\<close>, which is not in the allow-list.\<close>

definition example_properties :: "(string \<times> json) list" where
  "example_properties =
     [(''http.status_code'', JObj [(''type'', JStr ''long'')]),
      (''message'', JObj [(''type'', JStr ''text'')]),
      (''source.ip'', JObj [(''type'', JStr ''ip'')]),
      (''source.geo.location'', JObj [(''type'', JStr ''geo_point'')])]"

text \<open>Malformed declarations: \<^verbatim>\<open>{"a": {"type": "keyword"}, "b": 5}\<close>.\<close>

definition malformed_properties :: json where
  "malformed_properties =
     JObj [(''a'', JObj [(''type'', JStr ''keyword'')]), (''b'', JInt 5)]"

text \<open>The saved object \<^verbatim>\<open>{"id": "abc123"}\<close> that the lookup finds.\<close>

definition abc123 :: json where
  "abc123 = JObj [(''id'', JStr ''abc123'')]"

text \<open>An outside world in which every request is answered with status 200: Dashboards is at
  version 2.0.0 and OpenSearch at 2.5.0, the lookup finds the saved objects \<open>saved\<close>, the
  live field list is \<open>live\<close>, and the template has the given properties.\<close>

definition example_env :: "json list \<Rightarrow> json list \<Rightarrow> json \<Rightarrow> env" where
  "example_env saved live properties =
     \<lparr>status_reply = ok (JObj [(''version'', JObj [(''number'', JStr ''2.0.0'')])]),
      opensearch_reply = ok (JObj [(''version'', JObj [(''number'', JStr ''2.5.0'')])]),
      find_reply = ok (JObj [(''saved_objects'', JArr saved)]),
      fields_reply = ok (JObj [(''fields'', JArr live)]),
      template_reply = ok (template_body properties),
      put_reply = ok (JObj [(''id'', JStr ''abc123'')])\<rparr>"

text \<open>The calls that the script is written to make: four fixed ones, the one for the
  template when a template name is given, and a write unless the run is a dry run.\<close>

definition planned_request :: "args \<Rightarrow> request \<Rightarrow> bool" where
  "planned_request args rq \<longleftrightarrow>
     rq = status_request args \<or> rq = opensearch_request args \<or> rq = find_request args
     \<or> rq = fields_request args
     \<or> (case template args of None \<Rightarrow> False | Some t \<Rightarrow> rq = template_request args t)
     \<or> (is_put rq \<and> \<not> dryrun args)"

fun planned_event :: "args \<Rightarrow> event \<Rightarrow> bool" where
  "planned_event args (Call rq n) = planned_request args rq"
| "planned_event args (Stdout s) = True"
| "planned_event args (Stderr l) = True"

text \<open>An event whose call, if it is one, puts at most \<open>c\<close> requests on the wire.\<close>

fun sends_at_most :: "nat \<Rightarrow> event \<Rightarrow> bool" where
  "sends_at_most c (Call rq n) = (n \<le> c)"
| "sends_at_most c (Stdout s) = True"
| "sends_at_most c (Stderr l) = True"

text \<open>The largest number of further requests in any of the six exchanges.\<close>

definition max_further :: "env \<Rightarrow> nat" where
  "max_further env =
     max (further (status_reply env)) (max (further (opensearch_reply env))
    (max (further (find_reply env)) (max (further (fields_reply env))
    (max (further (template_reply env)) (further (put_reply env))))))"

text \<open>A call of \<^verbatim>\<open>requests.put\<close>, whether or not it sends anything.\<close>

fun put_call :: "event \<Rightarrow> bool" where
  "put_call (Call rq n) = is_put rq"
| "put_call (Stdout s) = False"
| "put_call (Stderr l) = False"

text \<open>
  The lines of lines 60 and 61, which print the command line and the parsed arguments and
  so show the dry-run flag; \<open>beyond_arguments\<close> is a run without them.
\<close>

fun arguments_line :: "event \<Rightarrow> bool" where
  "arguments_line (Call rq n) = False"
| "arguments_line (Stdout s) = False"
| "arguments_line (Stderr l) = (fst l = ''Arguments: {}'')"

definition beyond_arguments :: "event list \<Rightarrow> event list" where
  "beyond_arguments t = filter (\<lambda>ev. \<not> arguments_line ev) t"

section \<open>Properties of the drilldown classification\<close>

lemma py_eq_JStr: "py_eq x (JStr s) = (x = JStr s)"
  by (cases x) simp_all

lemma drilldown_Some_iff:
  "drilldown field = Inr (Some (k, e)) \<longleftrightarrow>
     (\<exists>ty. py_getitem field (JStr ''name'') = Inr (JStr k) \<and> isalpha (take 1 k) \<and>
       py_getitem field (JStr ''type'') = Inr ty \<and>
       e = \<lparr>info_id = ''drilldown'',
            params = \<lparr>urlTemplates = drilldownInfoParamsUrlTemplates k ty\<rparr>\<rparr>)"
proof (cases "py_getitem field (JStr ''name'')")
  case (Inl e')
  then show ?thesis by (simp add: drilldown_def and_then_def)
next
  case (Inr nm)
  show ?thesis
  proof (cases nm)
    case (JStr s)
    with Inr show ?thesis
      by (cases "py_getitem field (JStr ''type'')")
         (auto simp: drilldown_def and_then_def)
  qed (use Inr in \<open>simp_all add: drilldown_def and_then_def\<close>)
qed

text \<open>A field enters the map under a key only if the key is its name and starts with a
  letter.\<close>

lemma fieldFormatMap_loop_keys:
  "fieldFormatMap_loop fs m0 = Inr m \<Longrightarrow> k \<in> set (map fst m) \<Longrightarrow>
     k \<in> set (map fst m0) \<or> isalpha (take 1 k)"
proof (induction fs arbitrary: m0)
  case Nil
  then show ?case by simp
next
  case (Cons f fs)
  from Cons.prems(1) obtain r where r: "drilldown f = Inr r"
    and rest: "fieldFormatMap_loop fs
                 (case r of None \<Rightarrow> m0 | Some (k, v) \<Rightarrow> AList.update k v m0) = Inr m"
    by (cases "drilldown f") (simp_all add: and_then_def)
  from Cons.IH[OF rest Cons.prems(2)] show ?case
  proof
    assume k: "k \<in> set (map fst (case r of None \<Rightarrow> m0 | Some (k, v) \<Rightarrow> AList.update k v m0))"
    show ?thesis
    proof (cases r)
      case None
      with k show ?thesis by simp
    next
      case (Some kv)
      obtain k' e where kv: "kv = (k', e)" by (cases kv)
      with Some r have "isalpha (take 1 k')" by (simp add: drilldown_Some_iff)
      moreover from k Some kv have "k \<in> set (map fst (AList.update k' e m0))"
        by simp
      then have "k = k' \<or> k \<in> set (map fst m0)"
        by (auto simp: AList.update_keys split: if_splits)
      ultimately show ?thesis by auto
    qed
  qed simp
qed

text \<open>Fields of other names leave the entry of a name as it is.\<close>

lemma fieldFormatMap_loop_other_names:
  "fieldFormatMap_loop fs m0 = Inr m \<Longrightarrow>
     \<forall>f\<in>set fs. py_getitem f (JStr ''name'') \<noteq> Inr (JStr k) \<Longrightarrow>
     map_of m k = map_of m0 k"
proof (induction fs arbitrary: m0)
  case Nil
  then show ?case by simp
next
  case (Cons f fs)
  from Cons.prems(1) obtain r where r: "drilldown f = Inr r"
    and rest: "fieldFormatMap_loop fs
                 (case r of None \<Rightarrow> m0 | Some (k, v) \<Rightarrow> AList.update k v m0) = Inr m"
    by (cases "drilldown f") (simp_all add: and_then_def)
  from Cons.prems(2) have "\<forall>f\<in>set fs. py_getitem f (JStr ''name'') \<noteq> Inr (JStr k)"
    by simp
  from Cons.IH[OF rest this]
  have "map_of m k = map_of (case r of None \<Rightarrow> m0 | Some (k, v) \<Rightarrow> AList.update k v m0) k" .
  also have "\<dots> = map_of m0 k"
  proof (cases r)
    case None
    then show ?thesis by simp
  next
    case (Some kv)
    obtain k' e where kv: "kv = (k', e)" by (cases kv)
    with Some r have "py_getitem f (JStr ''name'') = Inr (JStr k')"
      by (simp add: drilldown_Some_iff)
    with Cons.prems(2) have "k' \<noteq> k" by auto
    with Some kv show ?thesis by (simp add: AList.update_conv')
  qed
  finally show ?case .
qed

text \<open>The entry of a name in the finished map is the one stored by the last field of that
  name.\<close>

lemma fieldFormatMap_loop_entry:
  "fieldFormatMap_loop (pre @ field # post) m0 = Inr m \<Longrightarrow>
     drilldown field = Inr (Some (k, e)) \<Longrightarrow>
     \<forall>f\<in>set post. py_getitem f (JStr ''name'') \<noteq> Inr (JStr k) \<Longrightarrow>
     map_of m k = Some e"
proof (induction pre arbitrary: m0)
  case Nil
  then have "fieldFormatMap_loop post (AList.update k e m0) = Inr m"
    by (simp add: and_then_def)
  from fieldFormatMap_loop_other_names[OF this Nil.prems(3)]
  show ?case by (simp add: AList.update_conv')
next
  case (Cons f pre)
  from Cons.prems(1) obtain r where r: "drilldown f = Inr r"
    and rest: "fieldFormatMap_loop (pre @ field # post)
                 (case r of None \<Rightarrow> m0 | Some (k, v) \<Rightarrow> AList.update k v m0) = Inr m"
    by (cases "drilldown f") (simp_all add: and_then_def)
  from Cons.IH[OF rest Cons.prems(2,3)] show ?case .
qed

lemma fieldFormatMap_entry:
  assumes "fieldFormatMap (JArr (pre @ field # post)) = Inr m"
    and "py_getitem field (JStr ''name'') = Inr (JStr name)"
    and "py_getitem field (JStr ''type'') = Inr ty"
    and "isalpha (take 1 name)"
    and "\<forall>f\<in>set post. py_getitem f (JStr ''name'') \<noteq> Inr (JStr name)"
  shows "map_of m name =
           Some \<lparr>info_id = ''drilldown'',
                 params = \<lparr>urlTemplates = drilldownInfoParamsUrlTemplates name ty\<rparr>\<rparr>"
proof -
  from assms(1) have "fieldFormatMap_loop (pre @ field # post) [] = Inr m"
    by (simp add: fieldFormatMap_def and_then_def)
  moreover from assms(2-4)
  have "drilldown field =
          Inr (Some (name, \<lparr>info_id = ''drilldown'',
                 params = \<lparr>urlTemplates = drilldownInfoParamsUrlTemplates name ty\<rparr>\<rparr>))"
    by (simp add: drilldown_Some_iff)
  ultimately show ?thesis
    using assms(5) by (rule fieldFormatMap_loop_entry)
qed

lemma appended_links_first_category:
  "appended_links name ty = first_category_links name ty"
  by (simp add: appended_links_def first_category_links_def category_order_def)

text \<open>
  Claim C1. For a field whose name starts with an alphabetic character (and that has a
  type), the loop body stores under the name an entry whose \<open>urlTemplates\<close> are the empty
  placeholder and the base link, followed by the links of one category at most: the first
  category, in the specification's order, whose test the field passes, and no link when it
  passes none.
\<close>

theorem drilldown_first_matching_category:
  assumes "py_getitem field (JStr ''name'') = Inr (JStr name)"
    and "isalpha (take 1 name)"
    and "py_getitem field (JStr ''type'') = Inr ty"
  shows "drilldown field =
           Inr (Some (name,
             \<lparr>info_id = ''drilldown'',
              params = \<lparr>urlTemplates =
                [None, Some (arkime_link name ty)] @
                map Some (case find (\<lambda>c. category_test c name ty) category_order of
                            None \<Rightarrow> []
                          | Some c \<Rightarrow> category_links c)\<rparr>\<rparr>))"
proof -
  have "appended_links name ty =
          (case find (\<lambda>c. category_test c name ty) category_order of
             None \<Rightarrow> []
           | Some c \<Rightarrow> category_links c)"
    by (simp only: appended_links_first_category first_category_links_def)
  with assms show ?thesis
    by (simp add: drilldown_Some_iff drilldownInfoParamsUrlTemplates_def)
qed

theorem drilldown_first_matching_category_witness:
  "py_getitem (JObj [(''name'', JStr ''src_port_md5''), (''type'', JStr ''string'')])
     (JStr ''name'') = Inr (JStr ''src_port_md5'')
   \<and> isalpha (take 1 ''src_port_md5'')
   \<and> py_getitem (JObj [(''name'', JStr ''src_port_md5''), (''type'', JStr ''string'')])
     (JStr ''type'') = Inr (JStr ''string'')
   \<and> category_test HashAlgorithm ''src_port_md5'' (JStr ''string'')
   \<and> drilldown (JObj [(''name'', JStr ''src_port_md5''), (''type'', JStr ''string'')]) =
       Inr (Some (''src_port_md5'',
         \<lparr>info_id = ''drilldown'',
          params = \<lparr>urlTemplates =
            [None, Some (arkime_link ''src_port_md5'' (JStr ''string'')),
             Some virustotal_hash_link]\<rparr>\<rparr>))"
proof -
  let ?f = "JObj [(''name'', JStr ''src_port_md5''), (''type'', JStr ''string'')]"
  have n: "py_getitem ?f (JStr ''name'') = Inr (JStr ''src_port_md5'')" by simp
  have a: "isalpha (take 1 ''src_port_md5'')" by code_simp
  have t: "py_getitem ?f (JStr ''type'') = Inr (JStr ''string'')" by simp
  have h: "category_test HashAlgorithm ''src_port_md5'' (JStr ''string'')" by code_simp
  have c: "find (\<lambda>c. category_test c ''src_port_md5'' (JStr ''string'')) category_order
             = Some HashAlgorithm"
    by code_simp
  from drilldown_first_matching_category[OF n a t] n a t h c show ?thesis
    by simp
qed

text \<open>
  Claim C3, as amended. A field whose name starts with an alphabetic character, matches the
  hash-algorithm pattern and does not match the IP/host pattern, \<^emph>\<open>and whose type is not\<close>
  \<open>ip\<close>, has in the resulting map (when no later field of the list bears the same name) an
  entry whose \<open>urlTemplates\<close> are the placeholder and exactly two links: the base link and
  the hash-reputation link.
\<close>

theorem hash_name_entry:
  assumes "fieldFormatMap (JArr (pre @ field # post)) = Inr m"
    and "py_getitem field (JStr ''name'') = Inr (JStr name)"
    and "py_getitem field (JStr ''type'') = Inr ty"
    and "isalpha (take 1 name)"
    and "\<forall>f\<in>set post. py_getitem f (JStr ''name'') \<noteq> Inr (JStr name)"
    and "re_search pat_hash name"
    and "\<not> re_search pat_ip_host name"
    and "ty \<noteq> JStr ''ip''"
  shows "map_of m name =
           Some \<lparr>info_id = ''drilldown'',
                 params = \<lparr>urlTemplates =
                   [None, Some (arkime_link name ty), Some virustotal_hash_link]\<rparr>\<rparr>"
proof -
  from assms(6-8) have "appended_links name ty = [virustotal_hash_link]"
    by (simp add: appended_links_def py_eq_JStr)
  with fieldFormatMap_entry[OF assms(1-5)] show ?thesis
    by (simp add: drilldownInfoParamsUrlTemplates_def)
qed

theorem hash_name_entry_witness:
  "fieldFormatMap (JArr ([] @ JObj [(''name'', JStr ''zeek.files.md5''), (''type'', JStr ''string'')] # []))
     = Inr [(''zeek.files.md5'',
         \<lparr>info_id = ''drilldown'',
          params = \<lparr>urlTemplates =
            [None, Some (arkime_link ''zeek.files.md5'' (JStr ''string'')),
             Some virustotal_hash_link]\<rparr>\<rparr>)]
   \<and> isalpha (take 1 ''zeek.files.md5'')
   \<and> re_search pat_hash ''zeek.files.md5''
   \<and> \<not> re_search pat_ip_host ''zeek.files.md5''
   \<and> map_of [(''zeek.files.md5'',
         \<lparr>info_id = ''drilldown'',
          params = \<lparr>urlTemplates =
            [None, Some (arkime_link ''zeek.files.md5'' (JStr ''string'')),
             Some virustotal_hash_link]\<rparr>\<rparr>)] ''zeek.files.md5''
      = Some \<lparr>info_id = ''drilldown'',
          params = \<lparr>urlTemplates =
            [None, Some (arkime_link ''zeek.files.md5'' (JStr ''string'')),
             Some virustotal_hash_link]\<rparr>\<rparr>"
proof -
  let ?f = "JObj [(''name'', JStr ''zeek.files.md5''), (''type'', JStr ''string'')]"
  let ?m = "[(''zeek.files.md5'',
         \<lparr>info_id = ''drilldown'',
          params = \<lparr>urlTemplates =
            [None, Some (arkime_link ''zeek.files.md5'' (JStr ''string'')),
             Some virustotal_hash_link]\<rparr>\<rparr>)]"
  have m: "fieldFormatMap (JArr ([] @ ?f # [])) = Inr ?m" by code_simp
  have n: "py_getitem ?f (JStr ''name'') = Inr (JStr ''zeek.files.md5'')" by simp
  have t: "py_getitem ?f (JStr ''type'') = Inr (JStr ''string'')" by simp
  have a: "isalpha (take 1 ''zeek.files.md5'')" by code_simp
  have l: "\<forall>f\<in>set []. py_getitem f (JStr ''name'') \<noteq> Inr (JStr ''zeek.files.md5'')"
    by simp
  have h: "re_search pat_hash ''zeek.files.md5''" by code_simp
  have i: "\<not> re_search pat_ip_host ''zeek.files.md5''" by code_simp
  have y: "JStr ''string'' \<noteq> JStr ''ip''" by simp
  from hash_name_entry[OF m n t a l h i y] m a h i show ?thesis
    by (intro conjI)
qed

text \<open>
  The claim as stated fails for a field of type \<open>ip\<close>: the name \<open>md5\<close> matches the
  hash-algorithm pattern and not the IP/host pattern, and its entry carries the
  IP-reputation link instead of the hash-reputation link.
\<close>

theorem hash_name_of_ip_type_counterexample:
  "re_search pat_hash ''md5''
   \<and> \<not> re_search pat_ip_host ''md5''
   \<and> fieldFormatMap (JArr [JObj [(''name'', JStr ''md5''), (''type'', JStr ''ip'')]])
       = Inr [(''md5'',
           \<lparr>info_id = ''drilldown'',
            params = \<lparr>urlTemplates =
              [None, Some (arkime_link ''md5'' (JStr ''ip'')),
               Some virustotal_ip_link]\<rparr>\<rparr>)]
   \<and> virustotal_ip_link \<noteq> virustotal_hash_link"
proof (intro conjI)
  show "re_search pat_hash ''md5''" by code_simp
  show "\<not> re_search pat_ip_host ''md5''" by code_simp
  show "fieldFormatMap (JArr [JObj [(''name'', JStr ''md5''), (''type'', JStr ''ip'')]])
       = Inr [(''md5'',
           \<lparr>info_id = ''drilldown'',
            params = \<lparr>urlTemplates =
              [None, Some (arkime_link ''md5'' (JStr ''ip'')),
               Some virustotal_ip_link]\<rparr>\<rparr>)]"
    by code_simp
  show "virustotal_ip_link \<noteq> virustotal_hash_link"
    by (simp add: virustotal_ip_link_def virustotal_hash_link_def)
qed

text \<open>
  Claim C4. For a field whose name starts with an alphabetic character, the second element
  of the entry's \<open>urlTemplates\<close> is the base link; its URL embeds the name after \<open>db:\<close>
  unless the name starts with \<open>zeek\<close>, and puts a double quote on both sides of
  \<open>{{value}}\<close> exactly when the type is \<open>string\<close>. For the name \<open>source.ip\<close> and the type
  \<open>ip\<close> the entry is the placeholder, the base link on \<open>db:source.ip == {{value}}\<close>
  without quotes, and the IP-reputation link.
\<close>

theorem base_link_prefix_and_quotes:
  assumes "fieldFormatMap (JArr (pre @ field # post)) = Inr m"
    and "py_getitem field (JStr ''name'') = Inr (JStr name)"
    and "py_getitem field (JStr ''type'') = Inr ty"
    and "isalpha (take 1 name)"
    and "\<forall>f\<in>set post. py_getitem f (JStr ''name'') \<noteq> Inr (JStr name)"
  shows "\<exists>info base more.
           map_of m name = Some info
           \<and> urlTemplates (params info) = None # Some base # more
           \<and> url base =
               ''/idkib2ark/'' @ (if startswith name ''zeek'' then [] else ''db:'') @ name
               @ '' == '' @ (if ty = JStr ''string'' then [CHR 0x22] else [])
               @ ''{{value}}'' @ (if ty = JStr ''string'' then [CHR 0x22] else [])
           \<and> (name = ''source.ip'' \<and> ty = JStr ''ip'' \<longrightarrow>
                urlTemplates (params info) =
                  [None,
                   Some \<lparr>url = ''/idkib2ark/db:source.ip == {{value}}'',
                         label = ''Arkime source.ip: {{value}}''\<rparr>,
                   Some \<lparr>url = ''https://www.virustotal.com/en/ip-address/{{value}}/information/'',
                         label = ''VirusTotal IP: {{value}}''\<rparr>])"
proof -
  let ?info = "\<lparr>info_id = ''drilldown'',
                params = \<lparr>urlTemplates = drilldownInfoParamsUrlTemplates name ty\<rparr>\<rparr>"
  have "map_of m name = Some ?info"
    using assms by (rule fieldFormatMap_entry)
  moreover have "urlTemplates (params ?info) =
      None # Some (arkime_link name ty) # map Some (appended_links name ty)"
    by (simp add: drilldownInfoParamsUrlTemplates_def)
  moreover have "url (arkime_link name ty) =
      ''/idkib2ark/'' @ (if startswith name ''zeek'' then [] else ''db:'') @ name
      @ '' == '' @ (if ty = JStr ''string'' then [CHR 0x22] else [])
      @ ''{{value}}'' @ (if ty = JStr ''string'' then [CHR 0x22] else [])"
    by (simp add: arkime_link_def valDbPrefix_def valQuote_def py_eq_JStr)
  moreover have "name = ''source.ip'' \<and> ty = JStr ''ip'' \<longrightarrow>
      urlTemplates (params ?info) =
        [None,
         Some \<lparr>url = ''/idkib2ark/db:source.ip == {{value}}'',
               label = ''Arkime source.ip: {{value}}''\<rparr>,
         Some \<lparr>url = ''https://www.virustotal.com/en/ip-address/{{value}}/information/'',
               label = ''VirusTotal IP: {{value}}''\<rparr>]"
    by (simp add: drilldownInfoParamsUrlTemplates_def arkime_link_def valDbPrefix_def
          valQuote_def startswith_def appended_links_def virustotal_ip_link_def)
  ultimately show ?thesis by blast
qed

theorem base_link_prefix_and_quotes_witness:
  "isalpha (take 1 ''source.ip'')
   \<and> fieldFormatMap (JArr ([] @
        JObj [(''name'', JStr ''source.ip''), (''type'', JStr ''ip''),
              (''esTypes'', JArr [JStr ''ip'']), (''searchable'', JBool True),
              (''aggregatable'', JBool True), (''readFromDocValues'', JBool True)] # []))
      = Inr [(''source.ip'',
          \<lparr>info_id = ''drilldown'',
           params = \<lparr>urlTemplates = drilldownInfoParamsUrlTemplates ''source.ip'' (JStr ''ip'')\<rparr>\<rparr>)]
   \<and> (\<exists>info.
        map_of [(''source.ip'',
          \<lparr>info_id = ''drilldown'',
           params = \<lparr>urlTemplates = drilldownInfoParamsUrlTemplates ''source.ip'' (JStr ''ip'')\<rparr>\<rparr>)]
          ''source.ip'' = Some info
        \<and> urlTemplates (params info) =
            [None,
             Some \<lparr>url = ''/idkib2ark/db:source.ip == {{value}}'',
                   label = ''Arkime source.ip: {{value}}''\<rparr>,
             Some \<lparr>url = ''https://www.virustotal.com/en/ip-address/{{value}}/information/'',
                   label = ''VirusTotal IP: {{value}}''\<rparr>])"
proof -
  let ?f = "JObj [(''name'', JStr ''source.ip''), (''type'', JStr ''ip''),
              (''esTypes'', JArr [JStr ''ip'']), (''searchable'', JBool True),
              (''aggregatable'', JBool True), (''readFromDocValues'', JBool True)]"
  let ?m = "[(''source.ip'',
          \<lparr>info_id = ''drilldown'',
           params = \<lparr>urlTemplates = drilldownInfoParamsUrlTemplates ''source.ip'' (JStr ''ip'')\<rparr>\<rparr>)]"
  have m: "fieldFormatMap (JArr ([] @ ?f # [])) = Inr ?m" by code_simp
  have n: "py_getitem ?f (JStr ''name'') = Inr (JStr ''source.ip'')" by simp
  have t: "py_getitem ?f (JStr ''type'') = Inr (JStr ''ip'')" by simp
  have a: "isalpha (take 1 ''source.ip'')" by code_simp
  have l: "\<forall>f\<in>set []. py_getitem f (JStr ''name'') \<noteq> Inr (JStr ''source.ip'')"
    by simp
  from base_link_prefix_and_quotes[OF m n t a l]
  have "\<exists>info. map_of ?m ''source.ip'' = Some info
        \<and> urlTemplates (params info) =
            [None,
             Some \<lparr>url = ''/idkib2ark/db:source.ip == {{value}}'',
                   label = ''Arkime source.ip: {{value}}''\<rparr>,
             Some \<lparr>url = ''https://www.virustotal.com/en/ip-address/{{value}}/information/'',
                   label = ''VirusTotal IP: {{value}}''\<rparr>]"
    by blast
  with a m show ?thesis by (intro conjI)
qed

text \<open>
  Claim C9. A name that does not start with an alphabetic character, the empty name
  included, has no entry in the resulting map, whatever the field list is.
\<close>

theorem non_alphabetic_name_has_no_entry:
  assumes "fieldFormatMap getFieldsList = Inr m"
    and "\<not> isalpha (take 1 name)"
  shows "map_of m name = None"
proof -
  from assms(1) obtain fs where "fieldFormatMap_loop fs [] = Inr m"
    by (cases "py_iter getFieldsList") (simp_all add: fieldFormatMap_def and_then_def)
  from fieldFormatMap_loop_keys[OF this, of name] assms(2)
  have "name \<notin> set (map fst m)" by auto
  then show ?thesis by (simp add: map_of_eq_None_iff)
qed

theorem non_alphabetic_name_has_no_entry_witness:
  "fieldFormatMap (JArr [JObj [(''name'', JStr ''source.ip''), (''type'', JStr ''ip'')],
                         JObj [(''name'', JStr ''_id''), (''type'', JStr ''string'')],
                         JObj [(''name'', JStr ''''), (''type'', JStr ''string'')]])
     = Inr [(''source.ip'',
         \<lparr>info_id = ''drilldown'',
          params = \<lparr>urlTemplates =
            [None, Some (arkime_link ''source.ip'' (JStr ''ip'')),
             Some virustotal_ip_link]\<rparr>\<rparr>)]
   \<and> \<not> isalpha (take 1 ''_id'')
   \<and> \<not> isalpha (take 1 '''')
   \<and> map_of [(''source.ip'',
         \<lparr>info_id = ''drilldown'',
          params = \<lparr>urlTemplates =
            [None, Some (arkime_link ''source.ip'' (JStr ''ip'')),
             Some virustotal_ip_link]\<rparr>\<rparr>)] ''_id'' = None
   \<and> map_of [(''source.ip'',
         \<lparr>info_id = ''drilldown'',
          params = \<lparr>urlTemplates =
            [None, Some (arkime_link ''source.ip'' (JStr ''ip'')),
             Some virustotal_ip_link]\<rparr>\<rparr>)] '''' = None"
proof -
  let ?fs = "JArr [JObj [(''name'', JStr ''source.ip''), (''type'', JStr ''ip'')],
                   JObj [(''name'', JStr ''_id''), (''type'', JStr ''string'')],
                   JObj [(''name'', JStr ''''), (''type'', JStr ''string'')]]"
  let ?m = "[(''source.ip'',
         \<lparr>info_id = ''drilldown'',
          params = \<lparr>urlTemplates =
            [None, Some (arkime_link ''source.ip'' (JStr ''ip'')),
             Some virustotal_ip_link]\<rparr>\<rparr>)]"
  have m: "fieldFormatMap ?fs = Inr ?m" by code_simp
  have a: "\<not> isalpha (take 1 ''_id'')" by code_simp
  have b: "\<not> isalpha (take 1 '''')" by code_simp
  from non_alphabetic_name_has_no_entry[OF m a] non_alphabetic_name_has_no_entry[OF m b]
    m a b
  show ?thesis by (intro conjI)
qed

section \<open>Properties of the run\<close>

subsection \<open>Sequencing and projections\<close>

lemma fst_bnd: "fst (bnd m f) = (case fst m of Inl e \<Rightarrow> Inl e | Inr x \<Rightarrow> fst (f x))"
  by (cases m) (simp add: bnd_def split: sum.splits prod.splits)

lemma snd_bnd: "snd (bnd m f) = snd m @ (case fst m of Inl e \<Rightarrow> [] | Inr x \<Rightarrow> snd (f x))"
  by (cases m) (simp add: bnd_def split: sum.splits prod.splits)

lemma fst_catch: "fst (catch m h) = (case fst m of Inl e \<Rightarrow> fst (h e) | Inr x \<Rightarrow> Inr x)"
  by (cases m) (simp add: catch_def split: sum.splits prod.splits)

lemma snd_catch: "snd (catch m h) = snd m @ (case fst m of Inl e \<Rightarrow> snd (h e) | Inr x \<Rightarrow> [])"
  by (cases m) (simp add: catch_def split: sum.splits prod.splits)

lemma calls_of_append: "calls_of (xs @ ys) = calls_of xs @ calls_of ys"
  by (induction xs rule: calls_of.induct) simp_all

lemma outbound_append: "outbound (xs @ ys) = outbound xs + outbound ys"
  by (induction xs rule: outbound.induct) simp_all

lemma stdout_of_append: "stdout_of (xs @ ys) = stdout_of xs @ stdout_of ys"
  by (induction xs rule: stdout_of.induct) simp_all

lemma stderr_of_append: "stderr_of (xs @ ys) = stderr_of xs @ stderr_of ys"
  by (induction xs rule: stderr_of.induct) simp_all

lemmas step_simps =
  fst_bnd snd_bnd fst_catch snd_catch ret_def lift_def eprint_def print_def issue_def when_do_def

subsection \<open>Properties of every event of a run\<close>

lemma every_bnd:
  "every_event P m \<Longrightarrow> (\<And>x. fst m = Inr x \<Longrightarrow> every_event P (f x)) \<Longrightarrow>
     every_event P (bnd m f)"
  by (cases "fst m") (simp_all add: every_event_def snd_bnd)

lemma every_catch:
  "every_event P m \<Longrightarrow> (\<And>e. fst m = Inl e \<Longrightarrow> every_event P (h e)) \<Longrightarrow>
     every_event P (catch m h)"
  by (cases "fst m") (simp_all add: every_event_def snd_catch)

lemma every_ret: "every_event P (ret x)"
  by (simp add: every_event_def ret_def)

lemma every_lift: "every_event P (lift r)"
  by (simp add: every_event_def lift_def)

lemma every_eprint: "P (Stderr l) \<Longrightarrow> every_event P (eprint l)"
  by (simp add: every_event_def eprint_def)

lemma every_print: "P (Stdout s) \<Longrightarrow> every_event P (print s)"
  by (simp add: every_event_def print_def)

lemma every_issue:
  "P (Call rq (sent x)) \<Longrightarrow> P (Call rq 0) \<Longrightarrow> every_event P (issue rq x)"
  by (simp add: every_event_def issue_def)

lemma every_when: "(b \<Longrightarrow> every_event P m) \<Longrightarrow> every_event P (when_do b m)"
  by (cases b) (simp_all add: when_do_def every_ret)

lemmas every_rules =
  every_bnd every_catch every_when every_ret every_lift every_eprint every_print every_issue


lemma acceptable_gets [simp]:
  "acceptable (status_request args)" "acceptable (opensearch_request args)"
  "acceptable (find_request args)" "acceptable (fields_request args)"
  "acceptable (template_request args t)"
  by (simp_all add: status_request_def opensearch_request_def find_request_def
        fields_request_def template_request_def)



subsection \<open>Counting the calls and the requests\<close>

lemma issues_bnd:
  "issues_at_most a m \<Longrightarrow> (\<And>x. issues_at_most b (f x)) \<Longrightarrow>
     issues_at_most (a + b) (bnd m f)"
proof (cases "fst m")
  case (Inl e)
  assume "issues_at_most a m"
  with Inl show ?thesis by (simp add: issues_at_most_def snd_bnd)
next
  case (Inr x)
  assume "issues_at_most a m" and "\<And>x. issues_at_most b (f x)"
  from this(1) this(2)[of x] Inr show ?thesis
    by (simp add: issues_at_most_def snd_bnd calls_of_append)
qed

lemma issues_catch:
  "issues_at_most a m \<Longrightarrow> (\<And>e. issues_at_most b (h e)) \<Longrightarrow>
     issues_at_most (a + b) (catch m h)"
proof (cases "fst m")
  case (Inl e)
  assume "issues_at_most a m" and "\<And>e. issues_at_most b (h e)"
  from this(1) this(2)[of e] Inl show ?thesis
    by (simp add: issues_at_most_def snd_catch calls_of_append)
next
  case (Inr x)
  assume "issues_at_most a m"
  with Inr show ?thesis by (simp add: issues_at_most_def snd_catch)
qed

lemma issues_mono: "issues_at_most a m \<Longrightarrow> a \<le> b \<Longrightarrow> issues_at_most b m"
  by (simp add: issues_at_most_def)

lemma issues_ret: "issues_at_most 0 (ret x)"
  by (simp add: issues_at_most_def ret_def)

lemma issues_lift: "issues_at_most 0 (lift r)"
  by (simp add: issues_at_most_def lift_def)

lemma issues_eprint: "issues_at_most 0 (eprint l)"
  by (simp add: issues_at_most_def eprint_def)

lemma issues_print: "issues_at_most 0 (print s)"
  by (simp add: issues_at_most_def print_def)

lemma issues_issue: "issues_at_most 1 (issue rq x)"
  by (simp add: issues_at_most_def issue_def)

lemma issues_when: "issues_at_most n m \<Longrightarrow> issues_at_most n (when_do b m)"
  by (cases b) (simp_all add: when_do_def issues_at_most_def ret_def)

lemmas issues_rules =
  issues_bnd issues_catch issues_when issues_ret issues_lift issues_eprint issues_print
  issues_issue

lemma resolve_issues: "issues_at_most 3 (resolve args env)"
  by (rule issues_mono, unfold resolve_def, (rule issues_rules)+, simp)

lemma fetch_fields_issues: "issues_at_most 1 (fetch_fields args env)"
  by (rule issues_mono, unfold fetch_fields_def, (rule issues_rules)+, simp)

lemma fetch_template_issues: "issues_at_most 1 (fetch_template args env t)"
  by (rule issues_mono, unfold fetch_template_def, (rule issues_rules)+, simp)

lemma merge_template_issues:
  "issues_at_most (if template args = None then 0 else 1) (merge_template args env st)"
proof (cases "template args")
  case None
  then show ?thesis by (simp add: merge_template_def issues_ret)
next
  case (Some t)
  have "issues_at_most 1
          (bnd (catch
                 (bnd (fetch_template args env t) (\<lambda>getTemplateInfo.
                  bnd (lift (py_iter getTemplateInfo)) (\<lambda>fs.
                  ret (merge_loop getTemplateInfo fs st))))
                 (\<lambda>e. ret (Some e, snd st)))
            (\<lambda>r. case r of
                   (None, getFieldsList) \<Rightarrow> ret getFieldsList
                 | (Some e, getFieldsList) \<Rightarrow>
                     bnd (eprint (skipping_message, [AExn e, AStr t]))
                       (\<lambda>_. ret getFieldsList)))"
  proof (rule issues_mono, rule issues_bnd)
    show "issues_at_most (1 + (0 + 0) + 0)
            (catch
                 (bnd (fetch_template args env t) (\<lambda>getTemplateInfo.
                  bnd (lift (py_iter getTemplateInfo)) (\<lambda>fs.
                  ret (merge_loop getTemplateInfo fs st))))
                 (\<lambda>e. ret (Some e, snd st)))"
      by (rule issues_catch issues_bnd fetch_template_issues issues_lift issues_ret)+
  next
    fix r :: "exn option \<times> json"
    have "issues_at_most (0 + 0) (bnd (eprint (skipping_message, [AExn e, AStr t]))
                       (\<lambda>_. ret (snd r)))" for e
      by (rule issues_bnd issues_eprint issues_ret)+
    then show "issues_at_most 0 (case r of
                   (None, getFieldsList) \<Rightarrow> ret getFieldsList
                 | (Some e, getFieldsList) \<Rightarrow>
                     bnd (eprint (skipping_message, [AExn e, AStr t]))
                       (\<lambda>_. ret getFieldsList))"
      by (cases r; cases "fst r") (simp_all add: issues_ret)
  qed simp
  with Some show ?thesis by (simp add: merge_template_def)
qed

lemma index_pattern_update_issues:
  "issues_at_most (1 + (if template args = None then 0 else 1)) (index_pattern_update args env)"
  by (rule issues_mono, unfold index_pattern_update_def,
      (rule issues_bnd fetch_fields_issues merge_template_issues issues_when issues_ret
        issues_lift issues_eprint)+, simp)

lemma write_back_issues:
  "issues_at_most (if dryrun args then 0 else 1) (write_back args env v i info)"
proof (cases "dryrun args")
  case True
  have "issues_at_most 0 (bnd (ret ()) (\<lambda>_. print ''success (dry run only, no write performed)''))"
    by (rule issues_mono, (rule issues_rules)+, simp)
  with True show ?thesis by (simp add: write_back_def)
next
  case False
  have "issues_at_most 1
          (bnd (bnd (issue (put_request args v i info) (put_reply env))
                  (\<lambda>putResponse. lift (raise_for_status putResponse)))
             (\<lambda>_. print ''success''))"
    by (rule issues_mono, (rule issues_rules)+, simp)
  with False show ?thesis by (simp add: write_back_def)
qed

lemma main_issues:
  "issues_at_most (4 + (if template args = None then 0 else 1) + (if dryrun args then 0 else 1))
     (main args env)"
proof (rule issues_mono)
  show "issues_at_most
          (3 + ((1 + (if template args = None then 0 else 1)) + (if dryrun args then 0 else 1)))
          (main args env)"
    unfolding main_def
  proof (rule issues_bnd[OF resolve_issues])
    fix x :: "json \<times> json"
    have "issues_at_most
            ((1 + (if template args = None then 0 else 1)) + (if dryrun args then 0 else 1))
            (bnd (index_pattern_update args env) (write_back args env (fst x) (snd x)))"
      by (rule issues_bnd index_pattern_update_issues write_back_issues)+
    moreover have "issues_at_most
            ((1 + (if template args = None then 0 else 1)) + (if dryrun args then 0 else 1))
            (print (failure_message args))"
      by (rule issues_mono[OF issues_print]) simp
    ultimately show "issues_at_most
            ((1 + (if template args = None then 0 else 1)) + (if dryrun args then 0 else 1))
            (case x of (dashboardsVersion, indexId) \<Rightarrow>
               if indexId \<noteq> JNull
               then bnd (index_pattern_update args env)
                      (\<lambda>putIndexInfo. write_back args env dashboardsVersion indexId putIndexInfo)
               else print (failure_message args))"
      by (cases x) simp
  qed
qed simp

lemma resolve_planned: "every_event (planned_event args) (resolve args env)"
  unfolding resolve_def
  by (intro every_rules) (simp_all add: planned_request_def)

lemma fetch_fields_planned: "every_event (planned_event args) (fetch_fields args env)"
  unfolding fetch_fields_def
  by (intro every_rules) (simp_all add: planned_request_def)

lemma fetch_template_planned:
  "template args = Some t \<Longrightarrow> every_event (planned_event args) (fetch_template args env t)"
  unfolding fetch_template_def
  by (intro every_rules) (simp_all add: planned_request_def)

lemma merge_template_planned: "every_event (planned_event args) (merge_template args env st)"
proof (cases "template args")
  case None
  then show ?thesis by (simp add: merge_template_def every_ret)
next
  case (Some t)
  have "every_event (planned_event args) (case r of
                   (None, getFieldsList) \<Rightarrow> ret getFieldsList
                 | (Some e, getFieldsList) \<Rightarrow>
                     bnd (eprint (skipping_message, [AExn e, AStr t]))
                       (\<lambda>_. ret getFieldsList))" for r :: "exn option \<times> json"
    by (cases r; cases "fst r") (auto intro!: every_rules)
  with Some fetch_template_planned[OF Some] show ?thesis
    unfolding merge_template_def
    by (auto intro!: every_bnd every_catch every_ret every_lift)
qed

lemma index_pattern_update_planned:
  "every_event (planned_event args) (index_pattern_update args env)"
  unfolding index_pattern_update_def
  by (intro every_bnd every_when every_ret every_lift every_eprint fetch_fields_planned
        merge_template_planned)
     simp_all

lemma write_back_planned: "every_event (planned_event args) (write_back args env v i info)"
  unfolding write_back_def
  by (cases "dryrun args")
     (auto intro!: every_rules simp: planned_request_def put_request_def)

lemma main_planned: "every_event (planned_event args) (main args env)"
  unfolding main_def
  by (auto intro!: every_bnd resolve_planned index_pattern_update_planned write_back_planned
        every_print)

lemma mem_calls_of: "rq \<in> set (calls_of t) \<longleftrightarrow> (\<exists>n. Call rq n \<in> set t)"
  by (induction t rule: calls_of.induct) auto

lemma sent_le: "sent x \<le> Suc (further x)"
  by (cases x) simp_all

lemma sent_le_max:
  "sent (status_reply env) \<le> Suc (max_further env)"
  "sent (opensearch_reply env) \<le> Suc (max_further env)"
  "sent (find_reply env) \<le> Suc (max_further env)"
  "sent (fields_reply env) \<le> Suc (max_further env)"
  "sent (template_reply env) \<le> Suc (max_further env)"
  "sent (put_reply env) \<le> Suc (max_further env)"
  using sent_le[of "status_reply env"] sent_le[of "opensearch_reply env"]
    sent_le[of "find_reply env"] sent_le[of "fields_reply env"]
    sent_le[of "template_reply env"] sent_le[of "put_reply env"]
  by (simp_all add: max_further_def)

lemma resolve_sends:
  "every_event (sends_at_most (Suc (max_further env))) (resolve args env)"
  unfolding resolve_def
  by (intro every_rules) (simp_all add: sent_le_max)

lemma fetch_fields_sends:
  "every_event (sends_at_most (Suc (max_further env))) (fetch_fields args env)"
  unfolding fetch_fields_def
  by (intro every_rules) (simp_all add: sent_le_max)

lemma fetch_template_sends:
  "every_event (sends_at_most (Suc (max_further env))) (fetch_template args env t)"
  unfolding fetch_template_def
  by (intro every_rules) (simp_all add: sent_le_max)

lemma merge_template_sends:
  "every_event (sends_at_most (Suc (max_further env))) (merge_template args env st)"
proof (cases "template args")
  case None
  then show ?thesis by (simp add: merge_template_def every_ret)
next
  case (Some t)
  have "every_event (sends_at_most (Suc (max_further env))) (case r of
                   (None, getFieldsList) \<Rightarrow> ret getFieldsList
                 | (Some e, getFieldsList) \<Rightarrow>
                     bnd (eprint (skipping_message, [AExn e, AStr t]))
                       (\<lambda>_. ret getFieldsList))" for r :: "exn option \<times> json"
    by (cases r; cases "fst r") (auto intro!: every_rules)
  with Some show ?thesis
    unfolding merge_template_def
    by (auto intro!: every_bnd every_catch every_ret every_lift fetch_template_sends)
qed

lemma index_pattern_update_sends:
  "every_event (sends_at_most (Suc (max_further env))) (index_pattern_update args env)"
  unfolding index_pattern_update_def
  by (intro every_bnd every_when every_ret every_lift every_eprint fetch_fields_sends
        merge_template_sends)
     simp_all

lemma write_back_sends:
  "every_event (sends_at_most (Suc (max_further env))) (write_back args env v i info)"
  unfolding write_back_def
  by (cases "dryrun args") (auto intro!: every_rules simp: sent_le_max)

lemma main_sends: "every_event (sends_at_most (Suc (max_further env))) (main args env)"
  unfolding main_def
  by (auto intro!: every_bnd resolve_sends index_pattern_update_sends write_back_sends
        every_print)

lemma outbound_le: "list_all (sends_at_most c) t \<Longrightarrow> outbound t \<le> length (calls_of t) * c"
  by (induction t rule: outbound.induct) simp_all

text \<open>
  Claim C5, as amended. A run makes at most \<^emph>\<open>six\<close> calls of the HTTP client, each of them
  one of these: the status request, the request to the OpenSearch URL, the pattern lookup,
  the request for the field list, the request for the template when a template name is
  given, and the write unless the run is a dry run. A call puts at most one HTTP request on
  the wire and one more for every redirect that the client follows, so the requests on the
  wire are at most the calls times one more than the largest number of further requests in
  a call; when no call sends a further request, they are at most six.
\<close>

theorem at_most_six_calls:
  "length (calls_of (snd (main args env)))
     \<le> 4 + (if template args = None then 0 else 1) + (if dryrun args then 0 else 1)
   \<and> length (calls_of (snd (main args env))) \<le> 6
   \<and> (\<forall>rq\<in>set (calls_of (snd (main args env))). planned_request args rq)
   \<and> outbound (snd (main args env))
       \<le> length (calls_of (snd (main args env))) * Suc (max_further env)
   \<and> (max_further env = 0 \<longrightarrow> outbound (snd (main args env)) \<le> 6)"
proof -
  have a: "length (calls_of (snd (main args env)))
     \<le> 4 + (if template args = None then 0 else 1) + (if dryrun args then 0 else 1)"
    using main_issues[of args env] by (simp add: issues_at_most_def)
  from a have b: "length (calls_of (snd (main args env))) \<le> 6"
    by (simp split: if_splits)
  have c: "\<forall>rq\<in>set (calls_of (snd (main args env))). planned_request args rq"
  proof
    fix rq
    assume "rq \<in> set (calls_of (snd (main args env)))"
    then obtain n where "Call rq n \<in> set (snd (main args env))"
      by (auto simp: mem_calls_of)
    with main_planned[of args env] have "planned_event args (Call rq n)"
      unfolding every_event_def list_all_iff by blast
    then show "planned_request args rq" by simp
  qed
  have d: "outbound (snd (main args env))
       \<le> length (calls_of (snd (main args env))) * Suc (max_further env)"
    using main_sends[of env args] unfolding every_event_def by (rule outbound_le)
  have e: "max_further env = 0 \<longrightarrow> outbound (snd (main args env)) \<le> 6"
  proof
    assume "max_further env = 0"
    with d have "outbound (snd (main args env)) \<le> length (calls_of (snd (main args env)))"
      by simp
    from this b show "outbound (snd (main args env)) \<le> 6" by (rule le_trans)
  qed
  from a b c d e show ?thesis by blast
qed

theorem at_most_six_calls_witness:
  "max_further (example_env [abc123] [source_ip_field] JNull) = 0
   \<and> outbound (snd (main (example_args None True)
                        (example_env [abc123] [source_ip_field] JNull))) \<le> 6
   \<and> length (calls_of (snd (main (example_args None True)
                               (example_env [abc123] [source_ip_field] JNull)))) \<le> 4
   \<and> calls_of (snd (main (example_args None True)
                               (example_env [abc123] [source_ip_field] JNull)))
      = [status_request (example_args None True), opensearch_request (example_args None True),
         find_request (example_args None True), fields_request (example_args None True)]
   \<and> planned_request (example_args None True) (fields_request (example_args None True))"
proof -
  have 1: "calls_of (snd (main (example_args None True)
                               (example_env [abc123] [source_ip_field] JNull)))
      = [status_request (example_args None True), opensearch_request (example_args None True),
         find_request (example_args None True), fields_request (example_args None True)]"
    by code_simp
  have 2: "max_further (example_env [abc123] [source_ip_field] JNull) = 0"
    by (simp add: max_further_def example_env_def ok_def)
  from at_most_six_calls[of "example_args None True"
          "example_env [abc123] [source_ip_field] JNull"] 1 2
  show ?thesis by (simp add: example_args_def)
qed

text \<open>
  The claim as stated, at most five requests, fails for a run with a template name and
  without the dry-run flag in which no redirect is followed: it makes six calls, the second
  of which is the request to the OpenSearch URL, and puts six requests on the wire.
\<close>

theorem six_requests_counterexample:
  "calls_of (snd (main (example_args (Some ''t'') False)
                       (example_env [abc123] [] (JObj []))))
     = [Get ''http://dashboards:5601/dashboards/api/status'' [],
        Get ''http://opensearch:9200'' [],
        Get ''http://dashboards:5601/dashboards/api/saved_objects/_find''
          [(''type'', [''index-pattern'']), (''fields'', [''id'']),
           (''search'', [[CHR 0x22] @ ''test-*'' @ [CHR 0x22]])],
        Get ''http://dashboards:5601/dashboards/api/index_patterns/_fields_for_wildcard''
          [(''pattern'', [''test-*'']),
           (''meta_fields'', [''_source'', ''_id'', ''_type'', ''_index'', ''_score''])],
        Get ''http://opensearch:9200/_template/t'' [],
        Put ''http://dashboards:5601/dashboards/api/saved_objects/index-pattern''
          (JStr ''abc123'')
          [(''Content-Type'', JStr ''application/json''), (''osd-xsrf'', JStr ''true''),
           (''osd-version'', JStr ''2.0.0'')]
          \<lparr>title = ''test-*'', fields_dumped = JArr [], fieldFormatMap_dumped = []\<rparr>]
   \<and> outbound (snd (main (example_args (Some ''t'') False)
                       (example_env [abc123] [] (JObj [])))) = 6
   \<and> \<not> outbound (snd (main (example_args (Some ''t'') False)
                       (example_env [abc123] [] (JObj [])))) \<le> 5"
  by code_simp

text \<open>
  Six is a bound on the calls, not on the requests on the wire: when the status URL answers
  with one redirect, which the client follows, the same run puts seven requests on the
  wire.
\<close>

lemma a_redirect_adds_a_request:
  "outbound (snd (main (example_args (Some ''t'') False)
       ((example_env [abc123] [] (JObj []))
          \<lparr>status_reply := Answered 1
             \<lparr>answer_status = 200,
              answer_body = Readable
                (Some (JObj [(''version'', JObj [(''number'', JStr ''2.0.0'')])]))\<rparr>\<rparr>))) = 7
   \<and> length (calls_of (snd (main (example_args (Some ''t'') False)
       ((example_env [abc123] [] (JObj []))
          \<lparr>status_reply := Answered 1
             \<lparr>answer_status = 200,
              answer_body = Readable
                (Some (JObj [(''version'', JObj [(''number'', JStr ''2.0.0'')])]))\<rparr>\<rparr>)))) = 6"
  by code_simp

subsection \<open>The pattern that is not found\<close>

text \<open>
  Claim C6. When the run reaches the pattern lookup and the lookup answers with zero saved
  objects, the script prints the failure message with the index name in it, exits with
  status 0, and the calls of the run are the three made so far: no request for the
  fields, for the template or for the write follows.
\<close>

theorem pattern_not_found:
  assumes "returns (status_reply env) = Some r1"
    and "raise_for_status r1 = Inr ()"
    and "response_json r1 = Inr statusInfo"
    and "version_number statusInfo = Inr v"
    and "returns (opensearch_reply env) = Some r2"
    and "returns (find_reply env) = Some r3"
    and "raise_for_status r3 = Inr ()"
    and "response_json r3 = Inr getIndexInfo"
    and "py_getitem getIndexInfo (JStr ''saved_objects'') = Inr saved"
    and "py_len saved = Inr 0"
  shows "stdout_of (snd (main args env)) =
           [''failure (could not find Index ID for '' @ index args @ '')'']
         \<and> exit_status (main args env) = 0
         \<and> calls_of (snd (main args env)) =
             [status_request args, opensearch_request args, find_request args]
         \<and> outbound (snd (main args env)) =
             sent (status_reply env) + sent (opensearch_reply env) + sent (find_reply env)"
proof -
  from assms(9,10) have id: "indexId_of getIndexInfo = Inr JNull"
    by (simp add: indexId_of_def and_then_def)
  have r: "fst (resolve args env) = Inr (v, JNull)"
    unfolding resolve_def using assms(1-8) id
    by (simp add: step_simps)
  have q: "calls_of (snd (resolve args env)) =
             [status_request args, opensearch_request args, find_request args]"
    unfolding resolve_def using assms(1-8) id
    by (simp add: step_simps calls_of_append)
  have w: "outbound (snd (resolve args env)) =
             sent (status_reply env) + sent (opensearch_reply env) + sent (find_reply env)"
    unfolding resolve_def using assms(1-8) id
    by (simp add: step_simps outbound_append)
  have o: "stdout_of (snd (resolve args env)) = []"
    unfolding resolve_def using assms(1-8) id
    by (simp add: step_simps stdout_of_append)
  from r q w o show ?thesis
    by (simp add: main_def step_simps calls_of_append outbound_append stdout_of_append
          exit_status_def failure_message_def)
qed

theorem pattern_not_found_witness:
  "py_len (JArr []) = Inr 0
   \<and> stdout_of (snd (main (example_args (Some ''t'') False)
                        (example_env [] [source_ip_field] (JObj example_properties))))
       = [''failure (could not find Index ID for test-*)'']
   \<and> exit_status (main (example_args (Some ''t'') False)
                     (example_env [] [source_ip_field] (JObj example_properties))) = 0
   \<and> calls_of (snd (main (example_args (Some ''t'') False)
                          (example_env [] [source_ip_field] (JObj example_properties))))
       = [Get ''http://dashboards:5601/dashboards/api/status'' [],
          Get ''http://opensearch:9200'' [],
          Get ''http://dashboards:5601/dashboards/api/saved_objects/_find''
            [(''type'', [''index-pattern'']), (''fields'', [''id'']),
             (''search'', [[CHR 0x22] @ ''test-*'' @ [CHR 0x22]])]]
   \<and> outbound (snd (main (example_args (Some ''t'') False)
                          (example_env [] [source_ip_field] (JObj example_properties)))) = 3"
proof -
  let ?args = "example_args (Some ''t'') False"
  let ?env = "example_env [] [source_ip_field] (JObj example_properties)"
  let ?status = "JObj [(''version'', JObj [(''number'', JStr ''2.0.0'')])]"
  let ?found = "JObj [(''saved_objects'', JArr [])]"
  have 1: "returns (status_reply ?env) = Some \<lparr>status_code = 200, json_body = Some ?status\<rparr>"
    by (simp add: example_env_def ok_def)
  have 2: "raise_for_status \<lparr>status_code = 200, json_body = Some ?status\<rparr> = Inr ()"
    by (simp add: raise_for_status_def)
  have 3: "response_json \<lparr>status_code = 200, json_body = Some ?status\<rparr> = Inr ?status"
    by (simp add: response_json_def)
  have 4: "version_number ?status = Inr (JStr ''2.0.0'')"
    by (simp add: version_number_def and_then_def)
  have 5: "returns (opensearch_reply ?env) =
      Some \<lparr>status_code = 200,
            json_body = Some (JObj [(''version'', JObj [(''number'', JStr ''2.5.0'')])])\<rparr>"
    by (simp add: example_env_def ok_def)
  have 6: "returns (find_reply ?env) = Some \<lparr>status_code = 200, json_body = Some ?found\<rparr>"
    by (simp add: example_env_def ok_def)
  have 7: "raise_for_status \<lparr>status_code = 200, json_body = Some ?found\<rparr> = Inr ()"
    by (simp add: raise_for_status_def)
  have 8: "response_json \<lparr>status_code = 200, json_body = Some ?found\<rparr> = Inr ?found"
    by (simp add: response_json_def)
  have 9: "py_getitem ?found (JStr ''saved_objects'') = Inr (JArr [])" by simp
  have 10: "py_len (JArr []) = Inr 0" by simp
  have a: "index ?args = ''test-*''" by (simp add: example_args_def)
  have b: "[status_request ?args, opensearch_request ?args, find_request ?args] =
      [Get ''http://dashboards:5601/dashboards/api/status'' [],
          Get ''http://opensearch:9200'' [],
          Get ''http://dashboards:5601/dashboards/api/saved_objects/_find''
            [(''type'', [''index-pattern'']), (''fields'', [''id'']),
             (''search'', [[CHR 0x22] @ ''test-*'' @ [CHR 0x22]])]]"
    by code_simp
  have c: "sent (status_reply ?env) + sent (opensearch_reply ?env) + sent (find_reply ?env) = 3"
    by (simp add: example_env_def ok_def)
  from pattern_not_found[OF 1 2 3 4 5 6 7 8 9 10, of ?args] a b c 10
  show ?thesis by simp
qed

subsection \<open>The answer of OpenSearch\<close>





















subsection \<open>The dry run\<close>

lemma quiet_get_trace:
  "list_all quiet_get t \<Longrightarrow>
     stdout_of t = [] \<and> filter (\<lambda>rq. \<not> is_put rq) (calls_of t) = calls_of t
     \<and> filter is_put (calls_of t) = []"
  by (induction t rule: calls_of.induct) simp_all

lemma quiet_get_no_put_call: "list_all quiet_get t \<Longrightarrow> list_all (\<lambda>ev. \<not> put_call ev) t"
  by (induction t rule: calls_of.induct) simp_all

lemma resolve_quiet: "every_event quiet_get (resolve args env)"
  unfolding resolve_def status_request_def opensearch_request_def find_request_def
  by (intro every_rules) simp_all

lemma fetch_fields_quiet: "every_event quiet_get (fetch_fields args env)"
  unfolding fetch_fields_def fields_request_def
  by (intro every_rules) simp_all

lemma fetch_template_quiet: "every_event quiet_get (fetch_template args env t)"
  unfolding fetch_template_def template_request_def
  by (intro every_rules) simp_all

lemma merge_template_quiet: "every_event quiet_get (merge_template args env st)"
proof (cases "template args")
  case None
  then show ?thesis by (simp add: merge_template_def every_ret)
next
  case (Some t)
  have "every_event quiet_get (case r of
                   (None, getFieldsList) \<Rightarrow> ret getFieldsList
                 | (Some e, getFieldsList) \<Rightarrow>
                     bnd (eprint (skipping_message, [AExn e, AStr t]))
                       (\<lambda>_. ret getFieldsList))" for r :: "exn option \<times> json"
    by (cases r; cases "fst r") (auto intro!: every_rules)
  with Some show ?thesis
    unfolding merge_template_def
    by (auto intro!: every_bnd every_catch every_ret every_lift fetch_template_quiet)
qed

lemma index_pattern_update_quiet: "every_event quiet_get (index_pattern_update args env)"
  unfolding index_pattern_update_def
  by (intro every_bnd every_when every_ret every_lift every_eprint fetch_fields_quiet
        merge_template_quiet)
     simp_all

lemma beyond_arguments_append:
  "beyond_arguments (xs @ ys) = beyond_arguments xs @ beyond_arguments ys"
  by (simp add: beyond_arguments_def)

lemma beyond_arguments_simps:
  "beyond_arguments [] = []"
  "beyond_arguments (Stdout s # t) = Stdout s # beyond_arguments t"
  "beyond_arguments (Call rq n # t) = Call rq n # beyond_arguments t"
  by (simp_all add: beyond_arguments_def)

lemma resolve_dryrun:
  "fst (resolve (args\<lparr>dryrun := b\<rparr>) env) = fst (resolve args env)
   \<and> calls_of (snd (resolve (args\<lparr>dryrun := b\<rparr>) env)) = calls_of (snd (resolve args env))
   \<and> beyond_arguments (snd (resolve (args\<lparr>dryrun := b\<rparr>) env))
       = beyond_arguments (snd (resolve args env))"
  unfolding resolve_def status_request_def opensearch_request_def find_request_def
  by (simp add: step_simps calls_of_append beyond_arguments_append beyond_arguments_def)

lemma merge_template_dryrun:
  "merge_template (args\<lparr>dryrun := b\<rparr>) env st = merge_template args env st"
  by (cases "template args")
     (simp_all add: merge_template_def fetch_template_def template_request_def)

lemma index_pattern_update_dryrun:
  "index_pattern_update (args\<lparr>dryrun := b\<rparr>) env = index_pattern_update args env"
  by (simp add: index_pattern_update_def fetch_fields_def fields_request_def
        merge_template_dryrun)

lemma quiet_step:
  assumes "every_event quiet_get m"
  shows "stdout_of (snd m) = []"
    and "filter (\<lambda>rq. \<not> is_put rq) (calls_of (snd m)) = calls_of (snd m)"
    and "filter is_put (calls_of (snd m)) = []"
    and "\<not> (\<exists>rq \<in> set (calls_of (snd m)). is_put rq)"
  using assms quiet_get_trace[of "snd m"]
  by (simp_all add: every_event_def filter_empty_conv)

lemma quiet_step_events:
  assumes "every_event quiet_get m"
  shows "\<not> list_ex put_call (snd m)"
    and "\<not> list_ex put_call (beyond_arguments (snd m))"
    and "takeWhile (\<lambda>ev. \<not> put_call ev) (beyond_arguments (snd m) @ r)
           = beyond_arguments (snd m) @ takeWhile (\<lambda>ev. \<not> put_call ev) r"
proof -
  from assms have a: "list_all (\<lambda>ev. \<not> put_call ev) (snd m)"
    by (simp add: every_event_def quiet_get_no_put_call)
  then show "\<not> list_ex put_call (snd m)"
    by (simp add: list_all_iff list_ex_iff)
  from a have b: "\<forall>ev \<in> set (beyond_arguments (snd m)). \<not> put_call ev"
    by (simp add: list_all_iff beyond_arguments_def)
  then show "\<not> list_ex put_call (beyond_arguments (snd m))"
    by (simp add: list_ex_iff)
  from b show "takeWhile (\<lambda>ev. \<not> put_call ev) (beyond_arguments (snd m) @ r)
           = beyond_arguments (snd m) @ takeWhile (\<lambda>ev. \<not> put_call ev) r"
    by (simp add: takeWhile_append2)
qed

lemma write_back_dry:
  "dryrun args \<Longrightarrow>
     write_back args env v i info =
       (Inr (), [Stdout ''success (dry run only, no write performed)''])"
  by (simp add: write_back_def bnd_def ret_def print_def)

lemma write_back_wet:
  "\<not> dryrun args \<Longrightarrow>
     calls_of (snd (write_back args env v i info)) = [put_request args v i info]"
  by (simp add: write_back_def step_simps calls_of_append split: sum.splits)

lemma write_back_wet_events:
  "\<not> dryrun args \<Longrightarrow>
     \<exists>n rest. snd (write_back args env v i info) = Call (put_request args v i info) n # rest"
  by (simp add: write_back_def step_simps split: sum.splits)

lemma is_put_put_request: "is_put (put_request args v i info)"
  by (simp add: put_request_def)

lemma dry_run_calls:
  "filter is_put (calls_of (snd (main (args\<lparr>dryrun := True\<rparr>) env))) = []
   \<and> calls_of (snd (main (args\<lparr>dryrun := True\<rparr>) env)) =
       filter (\<lambda>rq. \<not> is_put rq) (calls_of (snd (main (args\<lparr>dryrun := False\<rparr>) env)))
   \<and> ((\<exists>rq \<in> set (calls_of (snd (main (args\<lparr>dryrun := False\<rparr>) env))). is_put rq) \<longrightarrow>
        stdout_of (snd (main (args\<lparr>dryrun := True\<rparr>) env)) =
          [''success (dry run only, no write performed)'']
        \<and> exit_status (main (args\<lparr>dryrun := True\<rparr>) env) = 0)"
proof -
  let ?D = "args\<lparr>dryrun := True\<rparr>" and ?W = "args\<lparr>dryrun := False\<rparr>"
  let ?R = "resolve args env" and ?U = "index_pattern_update args env"
  note rD = resolve_dryrun[where args = args and b = True and env = env]
    and rW = resolve_dryrun[where args = args and b = False and env = env]
  note uD = index_pattern_update_dryrun[where args = args and b = True and env = env]
    and uW = index_pattern_update_dryrun[where args = args and b = False and env = env]
  note qR = quiet_step[OF resolve_quiet[of args env]]
    and qU = quiet_step[OF index_pattern_update_quiet[of args env]]
    and qD = quiet_step(1)[OF resolve_quiet[of ?D env]]
  have wD: "write_back ?D env v i info =
              (Inr (), [Stdout ''success (dry run only, no write performed)''])" for v i info
    by (rule write_back_dry) simp
  have wW: "calls_of (snd (write_back ?W env v i info)) = [put_request ?W v i info]"
    for v i info
    by (rule write_back_wet) simp
  show ?thesis
  proof (cases "fst ?R")
    case (Inl e)
    with rD rW qR show ?thesis
      by (auto simp: main_def snd_bnd uD uW)
  next
    case (Inr x)
    obtain v i where x: "x = (v, i)" by (cases x)
    show ?thesis
    proof (cases "i = JNull")
      case True
      with Inr x rD rW qR show ?thesis
        by (auto simp: main_def snd_bnd uD uW calls_of_append print_def)
    next
      case False
      show ?thesis
      proof (cases "fst ?U")
        case (Inl e)
        with False Inr x rD rW qR qU show ?thesis
          by (auto simp: main_def snd_bnd uD uW calls_of_append)
      next
        case (Inr info)
        with False \<open>fst ?R = Inr x\<close> x rD rW qR qU qD show ?thesis
          by (auto simp: main_def fst_bnd snd_bnd uD uW wD wW calls_of_append
                stdout_of_append is_put_put_request exit_status_def)
      qed
    qed
  qed
qed

lemma dry_run_trace:
  "\<not> list_ex put_call (snd (main (args\<lparr>dryrun := True\<rparr>) env))
   \<and> (if list_ex put_call (snd (main (args\<lparr>dryrun := False\<rparr>) env))
      then fst (main (args\<lparr>dryrun := True\<rparr>) env) = Inr ()
         \<and> beyond_arguments (snd (main (args\<lparr>dryrun := True\<rparr>) env)) =
             takeWhile (\<lambda>ev. \<not> put_call ev)
               (beyond_arguments (snd (main (args\<lparr>dryrun := False\<rparr>) env)))
             @ [Stdout ''success (dry run only, no write performed)'']
      else fst (main (args\<lparr>dryrun := True\<rparr>) env) = fst (main (args\<lparr>dryrun := False\<rparr>) env)
         \<and> beyond_arguments (snd (main (args\<lparr>dryrun := True\<rparr>) env)) =
             beyond_arguments (snd (main (args\<lparr>dryrun := False\<rparr>) env)))"
proof -
  let ?D = "args\<lparr>dryrun := True\<rparr>" and ?W = "args\<lparr>dryrun := False\<rparr>"
  let ?R = "resolve args env" and ?U = "index_pattern_update args env"
  note rD = resolve_dryrun[where args = args and b = True and env = env]
    and rW = resolve_dryrun[where args = args and b = False and env = env]
  note uD = index_pattern_update_dryrun[where args = args and b = True and env = env]
    and uW = index_pattern_update_dryrun[where args = args and b = False and env = env]
  note qR = quiet_step_events[OF resolve_quiet[of args env]]
    and qU = quiet_step_events[OF index_pattern_update_quiet[of args env]]
    and qD = quiet_step_events(1)[OF resolve_quiet[of ?D env]]
    and qW = quiet_step_events(1)[OF resolve_quiet[of ?W env]]
  have wD: "write_back ?D env v i info =
              (Inr (), [Stdout ''success (dry run only, no write performed)''])" for v i info
    by (rule write_back_dry) simp
  have wW: "\<exists>n rest. snd (write_back ?W env v i info) = Call (put_request ?W v i info) n # rest"
    for v i info
    by (rule write_back_wet_events) simp
  have f: "failure_message ?D = failure_message ?W"
    by (simp add: failure_message_def)
  show ?thesis
  proof (cases "fst ?R")
    case (Inl e)
    with rD rW qD qW show ?thesis
      by (simp add: main_def fst_bnd snd_bnd)
  next
    case (Inr x)
    obtain v i where x: "x = (v, i)" by (cases x)
    show ?thesis
    proof (cases "i = JNull")
      case True
      with Inr x rD rW qD qW f show ?thesis
        by (simp add: main_def fst_bnd snd_bnd print_def beyond_arguments_append
              beyond_arguments_simps)
    next
      case False
      show ?thesis
      proof (cases "fst ?U")
        case (Inl e)
        with False Inr x rD rW qD qW qU show ?thesis
          by (simp add: main_def fst_bnd snd_bnd uD uW beyond_arguments_append)
      next
        case (Inr info)
        from wW[of v i info] obtain n rest
          where w: "snd (write_back ?W env v i info) = Call (put_request ?W v i info) n # rest"
          by blast
        from w have b: "beyond_arguments (snd (write_back ?W env v i info))
            = Call (put_request ?W v i info) n # beyond_arguments rest"
          by (simp add: beyond_arguments_simps)
        from Inr False \<open>fst ?R = Inr x\<close> x rD rW qD qW qU(1) w
        have 1: "\<not> list_ex put_call (snd (main ?D env))"
          and 2: "list_ex put_call (snd (main ?W env))"
          and 3: "fst (main ?D env) = Inr ()"
          by (simp_all add: main_def fst_bnd snd_bnd uD uW wD is_put_put_request)
        from Inr False \<open>fst ?R = Inr x\<close> x rD rW
        have 4: "beyond_arguments (snd (main ?D env)) =
                   beyond_arguments (snd ?R) @ beyond_arguments (snd ?U)
                   @ [Stdout ''success (dry run only, no write performed)'']"
          and 5: "beyond_arguments (snd (main ?W env)) =
                   beyond_arguments (snd ?R) @ beyond_arguments (snd ?U)
                   @ Call (put_request ?W v i info) n # beyond_arguments rest"
          by (simp_all add: main_def fst_bnd snd_bnd uD uW wD b beyond_arguments_append
                beyond_arguments_simps)
        from 5 have "takeWhile (\<lambda>ev. \<not> put_call ev) (beyond_arguments (snd (main ?W env)))
                 = beyond_arguments (snd ?R) @ beyond_arguments (snd ?U)"
          by (simp add: qR(3) qU(3) is_put_put_request)
        with 1 2 3 4 show ?thesis by simp
      qed
    qed
  qed
qed

text \<open>
  Claim C8, as amended. With the dry-run flag \<^verbatim>\<open>requests.put\<close> is never called, whatever
  the input, and the run is the run without the flag up to the place of that call: the
  same calls with the same arguments in the same order, each with the same requests on
  the wire, the same lines on standard error apart from the two that print the arguments,
  the same exception when one ends the run. \<^emph>\<open>When the run without the flag gets as far as
  calling\<close> \<^verbatim>\<open>requests.put\<close>, the dry run prints
  \<^verbatim>\<open>success (dry run only, no write performed)\<close> in place of the call, as its only line on
  standard output, and exits with status 0; when it does not get that far, the dry run ends
  as the run without the flag does, with the same result and the same output.
\<close>

theorem dry_run_stops_before_the_write:
  "\<not> list_ex put_call (snd (main (args\<lparr>dryrun := True\<rparr>) env))
   \<and> (if list_ex put_call (snd (main (args\<lparr>dryrun := False\<rparr>) env))
      then fst (main (args\<lparr>dryrun := True\<rparr>) env) = Inr ()
         \<and> beyond_arguments (snd (main (args\<lparr>dryrun := True\<rparr>) env)) =
             takeWhile (\<lambda>ev. \<not> put_call ev)
               (beyond_arguments (snd (main (args\<lparr>dryrun := False\<rparr>) env)))
             @ [Stdout ''success (dry run only, no write performed)'']
         \<and> stdout_of (snd (main (args\<lparr>dryrun := True\<rparr>) env)) =
             [''success (dry run only, no write performed)'']
         \<and> exit_status (main (args\<lparr>dryrun := True\<rparr>) env) = 0
      else fst (main (args\<lparr>dryrun := True\<rparr>) env) = fst (main (args\<lparr>dryrun := False\<rparr>) env)
         \<and> beyond_arguments (snd (main (args\<lparr>dryrun := True\<rparr>) env)) =
             beyond_arguments (snd (main (args\<lparr>dryrun := False\<rparr>) env)))
   \<and> calls_of (snd (main (args\<lparr>dryrun := True\<rparr>) env)) =
       filter (\<lambda>rq. \<not> is_put rq) (calls_of (snd (main (args\<lparr>dryrun := False\<rparr>) env)))
   \<and> index_pattern_update (args\<lparr>dryrun := True\<rparr>) env =
       index_pattern_update (args\<lparr>dryrun := False\<rparr>) env"
proof -
  have p: "list_ex put_call t \<longleftrightarrow> (\<exists>rq \<in> set (calls_of t). is_put rq)" for t
    by (induction t rule: calls_of.induct) simp_all
  have "index_pattern_update (args\<lparr>dryrun := True\<rparr>) env =
       index_pattern_update (args\<lparr>dryrun := False\<rparr>) env"
    by (simp add: index_pattern_update_dryrun)
  with dry_run_trace[of args env] dry_run_calls[of args env]
    p[of "snd (main (args\<lparr>dryrun := False\<rparr>) env)"]
  show ?thesis by (simp split: if_splits)
qed

theorem dry_run_stops_before_the_write_witness:
  "list_ex put_call (snd (main ((example_args None True)\<lparr>dryrun := False\<rparr>)
                      (example_env [abc123] [source_ip_field] JNull)))
   \<and> stdout_of (snd (main ((example_args None True)\<lparr>dryrun := True\<rparr>)
                      (example_env [abc123] [source_ip_field] JNull)))
       = [''success (dry run only, no write performed)'']
   \<and> exit_status (main ((example_args None True)\<lparr>dryrun := True\<rparr>)
                      (example_env [abc123] [source_ip_field] JNull)) = 0
   \<and> \<not> list_ex put_call (snd (main ((example_args None True)\<lparr>dryrun := True\<rparr>)
                      (example_env [abc123] [source_ip_field] JNull)))
   \<and> \<not> list_ex put_call (snd (main ((example_args None True)\<lparr>dryrun := False\<rparr>)
                      (example_env [abc123] [JObj [(''name'', JStr ''a'')]] JNull)))
   \<and> fst (main ((example_args None True)\<lparr>dryrun := True\<rparr>)
                      (example_env [abc123] [JObj [(''name'', JStr ''a'')]] JNull)) = Inl DataError"
proof -
  have w: "list_ex put_call (snd (main ((example_args None True)\<lparr>dryrun := False\<rparr>)
                      (example_env [abc123] [source_ip_field] JNull)))"
    by code_simp
  have n: "\<not> list_ex put_call (snd (main ((example_args None True)\<lparr>dryrun := False\<rparr>)
                      (example_env [abc123] [JObj [(''name'', JStr ''a'')]] JNull)))"
    by code_simp
  have e: "fst (main ((example_args None True)\<lparr>dryrun := False\<rparr>)
                      (example_env [abc123] [JObj [(''name'', JStr ''a'')]] JNull)) = Inl DataError"
    by code_simp
  from dry_run_stops_before_the_write[of "example_args None True"
         "example_env [abc123] [source_ip_field] JNull"] w
  have 1: "stdout_of (snd (main ((example_args None True)\<lparr>dryrun := True\<rparr>)
                      (example_env [abc123] [source_ip_field] JNull)))
       = [''success (dry run only, no write performed)'']
   \<and> exit_status (main ((example_args None True)\<lparr>dryrun := True\<rparr>)
                      (example_env [abc123] [source_ip_field] JNull)) = 0
   \<and> \<not> list_ex put_call (snd (main ((example_args None True)\<lparr>dryrun := True\<rparr>)
                      (example_env [abc123] [source_ip_field] JNull)))"
    by simp
  from dry_run_stops_before_the_write[of "example_args None True"
         "example_env [abc123] [JObj [(''name'', JStr ''a'')]] JNull"] n e
  have 2: "fst (main ((example_args None True)\<lparr>dryrun := True\<rparr>)
                      (example_env [abc123] [JObj [(''name'', JStr ''a'')]] JNull)) = Inl DataError"
    by simp
  from w n 1 2 show ?thesis by blast
qed

text \<open>
  The claim as stated, success reported for every input, fails for a dry run whose pattern
  lookup finds nothing: it prints the failure message.
\<close>

theorem dry_run_pattern_not_found_counterexample:
  "dryrun (example_args None True)
   \<and> stdout_of (snd (main (example_args None True)
                        (example_env [] [source_ip_field] JNull)))
       = [''failure (could not find Index ID for test-*)'']
   \<and> stdout_of (snd (main (example_args None True)
                        (example_env [] [source_ip_field] JNull)))
       \<noteq> [''success (dry run only, no write performed)'']"
  by code_simp

text \<open>
  The write stage is reached also when the client sends nothing: with a version number in
  the status answer that is no string, \<^verbatim>\<open>requests.put\<close> is called and raises before a
  request goes out, and the dry run of the same input reports success.
\<close>

lemma write_refused_for_the_version_header:
  "calls_of (snd (main (example_args None False)
       ((example_env [abc123] [] JNull)
          \<lparr>status_reply := ok (JObj [(''version'', JObj [(''number'', JInt 2)])])\<rparr>)))
     = [status_request (example_args None False), opensearch_request (example_args None False),
        find_request (example_args None False), fields_request (example_args None False),
        put_request (example_args None False) (JInt 2) (JStr ''abc123'')
          \<lparr>title = ''test-*'', fields_dumped = JArr [], fieldFormatMap_dumped = []\<rparr>]
   \<and> outbound (snd (main (example_args None False)
       ((example_env [abc123] [] JNull)
          \<lparr>status_reply := ok (JObj [(''version'', JObj [(''number'', JInt 2)])])\<rparr>))) = 4
   \<and> exit_status (main (example_args None False)
       ((example_env [abc123] [] JNull)
          \<lparr>status_reply := ok (JObj [(''version'', JObj [(''number'', JInt 2)])])\<rparr>)) = 1
   \<and> stdout_of (snd (main (example_args None True)
       ((example_env [abc123] [] JNull)
          \<lparr>status_reply := ok (JObj [(''version'', JObj [(''number'', JInt 2)])])\<rparr>)))
     = [''success (dry run only, no write performed)'']"
  by code_simp


section \<open>Properties of the template merge\<close>

lemma names_of_mem:
  "names_of live = Inr names \<Longrightarrow>
     JStr k \<in> set names \<longleftrightarrow> (\<exists>f\<in>set live. py_getitem f (JStr ''name'') = Inr (JStr k))"
proof (induction live arbitrary: names)
  case Nil
  then show ?case by simp
next
  case (Cons f live)
  from Cons.prems obtain has where has: "py_in_str ''name'' f = Inr has"
    by (cases "py_in_str ''name'' f") (simp_all add: and_then_def)
  show ?case
  proof (cases has)
    case True
    with Cons.prems has obtain nm nms where nm: "py_getitem f (JStr ''name'') = Inr nm"
      and nms: "names_of live = Inr nms" and names: "names = nm # nms"
      by (cases "py_getitem f (JStr ''name'')"; cases "names_of live")
         (auto simp: and_then_def)
    from Cons.IH[OF nms] nm names show ?thesis by auto
  next
    case False
    with Cons.prems has have rest: "names_of live = Inr names"
      by (simp add: and_then_def)
    from has False have "py_getitem f (JStr ''name'') \<noteq> Inr (JStr k)"
      by (cases f) (auto dest!: map_of_SomeD simp: rev_image_eqI split: option.splits)
    with Cons.IH[OF rest] show ?thesis by auto
  qed
qed

lemma in_mergeFieldTypes:
  "list_ex (\<lambda>t. py_eq (JStr t) ty) mergeFieldTypes \<longleftrightarrow>
     (\<exists>t. ty = JStr t \<and> t \<in> {''date'', ''float'', ''integer'', ''ip'', ''keyword'', ''long'',
                        ''short'', ''text''})"
  by (cases ty) (auto simp: mergeFieldTypes_def)

lemma mergedFieldInfo_synthesized:
  "declared_type decl = Some t \<Longrightarrow>
     mergedFieldInfo (JStr k) (JStr t) = synthesized (k, decl)"
  by (auto simp: mergedFieldInfo_def synthesized_def semantic_type_def)

lemma list_ex_py_eq_JStr: "list_ex (\<lambda>n. py_eq n (JStr k)) names \<longleftrightarrow> JStr k \<in> set names"
  by (simp add: list_ex_iff py_eq_JStr)

lemma py_in_str_type_object:
  "py_in_str ''type'' (JObj d) = Inr (map_of d ''type'' \<noteq> None)"
  by (simp add: map_of_eq_None_iff)

lemma merge_field_object_source:
  assumes "map_of props k = Some (JObj d)"
  shows "merge_field (JObj props) (JStr k) (names, JArr fs) =
           Inr (if JStr k \<notin> set names
                   \<and> (\<exists>ty. map_of d ''type'' = Some ty
                          \<and> list_ex (\<lambda>t. py_eq (JStr t) ty) mergeFieldTypes)
                then (names @ [JStr k],
                      JArr (fs @ [mergedFieldInfo (JStr k) (the (map_of d ''type''))]))
                else (names, JArr fs))"
proof (cases "map_of d ''type''")
  case None
  with assms show ?thesis
    unfolding merge_field_def
    by (simp add: and_then_def py_in_str_type_object list_ex_py_eq_JStr
          del: py_in_str.simps)
next
  case (Some ty)
  with assms show ?thesis
    unfolding merge_field_def
    by (simp add: and_then_def py_in_str_type_object list_ex_py_eq_JStr
          del: py_in_str.simps)
qed

lemma eligible_object:
  "eligible names (k, JObj d) \<longleftrightarrow>
     JStr k \<notin> set names
     \<and> (\<exists>ty. map_of d ''type'' = Some ty \<and> list_ex (\<lambda>t. py_eq (JStr t) ty) mergeFieldTypes)"
proof (cases "map_of d ''type''")
  case None
  then show ?thesis by (simp add: eligible_def declared_type_def)
next
  case (Some ty)
  then show ?thesis
    by (cases ty) (simp_all add: eligible_def declared_type_def in_mergeFieldTypes)
qed

lemma eligible_synthesized:
  assumes "eligible names (k, JObj d)"
  shows "mergedFieldInfo (JStr k) (the (map_of d ''type'')) = synthesized (k, JObj d)"
proof -
  from assms obtain t where "declared_type (JObj d) = Some t"
    by (cases "declared_type (JObj d)") (simp_all add: eligible_def)
  moreover from this have "map_of d ''type'' = Some (JStr t)"
    by (auto simp: declared_type_def split: option.splits json.splits)
  ultimately show ?thesis
    using mergedFieldInfo_synthesized[of "JObj d" t k] by simp
qed

lemma merge_field_object:
  assumes "map_of props k = Some (JObj d)"
  shows "merge_field (JObj props) (JStr k) (names, JArr fs) =
           Inr (if eligible names (k, JObj d)
                then (names @ [JStr k], JArr (fs @ [synthesized (k, JObj d)]))
                else (names, JArr fs))"
proof (cases "eligible names (k, JObj d)")
  case True
  with eligible_synthesized[OF True] show ?thesis
    by (simp only: merge_field_object_source[OF assms] eligible_object[symmetric] if_True)
next
  case False
  then show ?thesis
    by (simp only: merge_field_object_source[OF assms] eligible_object[symmetric] if_False)
qed

lemma merge_loop_objects:
  assumes "distinct (map fst props)"
  shows "set ps \<subseteq> set props \<Longrightarrow> distinct (map fst ps) \<Longrightarrow>
     \<forall>decl\<in>snd ` set ps. \<exists>d. decl = JObj d \<Longrightarrow>
     \<forall>k\<in>fst ` set ps. JStr k \<notin> set extra \<Longrightarrow>
     merge_loop (JObj props) (map (\<lambda>(k, v). JStr k) ps) (names @ extra, JArr fs) =
       (None, JArr (fs @ map synthesized (filter (eligible names) ps)))"
proof (induction ps arbitrary: extra fs)
  case Nil
  then show ?case by simp
next
  case (Cons p ps)
  obtain k decl where p: "p = (k, decl)" by (cases p)
  with Cons.prems(3) obtain d where d: "decl = JObj d" by auto
  from Cons.prems(1) p assms have look: "map_of props k = Some (JObj d)"
    by (simp add: d)
  from Cons.prems(4) p have fresh: "JStr k \<notin> set extra" by simp
  then have el: "eligible (names @ extra) (k, JObj d) = eligible names (k, JObj d)"
    by (simp add: eligible_def)
  from Cons.prems have rest: "set ps \<subseteq> set props" "distinct (map fst ps)"
    "\<forall>decl\<in>snd ` set ps. \<exists>d. decl = JObj d" by auto
  show ?case
  proof (cases "eligible names (k, JObj d)")
    case True
    from Cons.prems(2,4) p have "\<forall>k'\<in>fst ` set ps. JStr k' \<notin> set (extra @ [JStr k])"
      by auto
    from Cons.IH[OF rest this, of "fs @ [synthesized (k, JObj d)]"] True el p d
    show ?thesis
      by (simp add: merge_field_object[OF look])
  next
    case False
    from Cons.prems(4) have "\<forall>k'\<in>fst ` set ps. JStr k' \<notin> set extra" by simp
    from Cons.IH[OF rest this, of fs] False el p d
    show ?thesis
      by (simp add: merge_field_object[OF look])
  qed
qed

text \<open>
  Claim C2. When a template name is given, the template is fetched and its \<open>properties\<close>
  are a dictionary of field declarations, the merge appends to the live field list, in the
  order of the template, exactly the descriptors synthesized for the declared fields whose
  type is in the allow-list and whose name no live field bears; the live fields stay as they
  are and in front, the appended names are pairwise distinct, and nothing is logged. The
  descriptor is the one the specification describes (\<open>synthesized\<close>).
\<close>

theorem template_merge_adds_eligible_fields:
  assumes "template args = Some t"
    and "returns (template_reply env) = Some r"
    and "raise_for_status r = Inr ()"
    and "response_json r = Inr j"
    and "py_getitem j (JStr t) = Inr tpl"
    and "py_getitem tpl (JStr ''mappings'') = Inr mappings"
    and "py_getitem mappings (JStr ''properties'') = Inr (JObj props)"
    and "distinct (map fst props)"
    and "\<forall>decl\<in>snd ` set props. \<exists>d. decl = JObj d"
    and "fieldsNames_of (JArr live) = Inr names"
  shows "merge_template args env (names, JArr live) =
           (Inr (JArr (live @ map synthesized (filter (eligible names) props))),
            [Call (template_request args t) (sent (template_reply env))])
         \<and> (\<forall>k. JStr k \<in> set names \<longleftrightarrow>
                 (\<exists>f\<in>set live. py_getitem f (JStr ''name'') = Inr (JStr k)))
         \<and> distinct (map fst (filter (eligible names) props))"
proof -
  from assms(2-7) have info: "fetch_template args env t =
      (Inr (JObj props), [Call (template_request args t) (sent (template_reply env))])"
    by (simp add: fetch_template_def bnd_def issue_def lift_def and_then_def
          template_request_def)
  from assms(8,9)
  have "merge_loop (JObj props) (map (\<lambda>(k, v). JStr k) props) (names @ [], JArr live) =
          (None, JArr (live @ map synthesized (filter (eligible names) props)))"
    by (intro merge_loop_objects) simp_all
  with info assms(1)
  have "merge_template args env (names, JArr live) =
           (Inr (JArr (live @ map synthesized (filter (eligible names) props))),
            [Call (template_request args t) (sent (template_reply env))])"
    by (simp add: merge_template_def bnd_def catch_def lift_def ret_def)
  moreover from assms(10) have "names_of live = Inr names"
    by (simp add: fieldsNames_of_def and_then_def)
  then have "\<forall>k. JStr k \<in> set names \<longleftrightarrow>
                 (\<exists>f\<in>set live. py_getitem f (JStr ''name'') = Inr (JStr k))"
    using names_of_mem by blast
  moreover from assms(8) have "distinct (map fst (filter (eligible names) props))"
    by (simp add: distinct_map_filter)
  ultimately show ?thesis by blast
qed

theorem template_merge_adds_eligible_fields_witness:
  "merge_template (example_args (Some ''t'') False)
     (example_env [abc123] [source_ip_field] (JObj example_properties))
     ([JStr ''source.ip''], JArr [source_ip_field]) =
     (Inr (JArr [source_ip_field,
                 JObj [(''name'', JStr ''http.status_code''),
                       (''esTypes'', JArr [JStr ''long'']),
                       (''type'', JStr ''number''),
                       (''searchable'', JBool True),
                       (''aggregatable'', JBool True),
                       (''readFromDocValues'', JBool True)],
                 JObj [(''name'', JStr ''message''),
                       (''esTypes'', JArr [JStr ''text'']),
                       (''type'', JStr ''string''),
                       (''searchable'', JBool True),
                       (''aggregatable'', JBool False),
                       (''readFromDocValues'', JBool False)]]),
      [Call (Get ''http://opensearch:9200/_template/t'' []) 1])"
proof -
  let ?args = "example_args (Some ''t'') False"
  let ?env = "example_env [abc123] [source_ip_field] (JObj example_properties)"
  let ?r = "\<lparr>status_code = 200, json_body = Some (template_body (JObj example_properties))\<rparr>"
  let ?tpl = "JObj [(''order'', JInt 0),
                    (''mappings'', JObj [(''properties'', JObj example_properties)])]"
  have 1: "template ?args = Some ''t''" by (simp add: example_args_def)
  have 2: "returns (template_reply ?env) = Some ?r" by (simp add: example_env_def ok_def)
  have 3: "raise_for_status ?r = Inr ()" by (simp add: raise_for_status_def)
  have 4: "response_json ?r = Inr (template_body (JObj example_properties))"
    by (simp add: response_json_def)
  have 5: "py_getitem (template_body (JObj example_properties)) (JStr ''t'') = Inr ?tpl"
    by (simp add: template_body_def)
  have 6: "py_getitem ?tpl (JStr ''mappings'') =
             Inr (JObj [(''properties'', JObj example_properties)])"
    by simp
  have 7: "py_getitem (JObj [(''properties'', JObj example_properties)]) (JStr ''properties'')
             = Inr (JObj example_properties)"
    by simp
  have 8: "distinct (map fst example_properties)" by (simp add: example_properties_def)
  have 9: "\<forall>decl\<in>snd ` set example_properties. \<exists>d. decl = JObj d"
    by (simp add: example_properties_def)
  have 10: "fieldsNames_of (JArr [source_ip_field]) = Inr [JStr ''source.ip'']"
    by code_simp
  have 11: "map synthesized (filter (eligible [JStr ''source.ip'']) example_properties) =
      [JObj [(''name'', JStr ''http.status_code''),
                       (''esTypes'', JArr [JStr ''long'']),
                       (''type'', JStr ''number''),
                       (''searchable'', JBool True),
                       (''aggregatable'', JBool True),
                       (''readFromDocValues'', JBool True)],
                 JObj [(''name'', JStr ''message''),
                       (''esTypes'', JArr [JStr ''text'']),
                       (''type'', JStr ''string''),
                       (''searchable'', JBool True),
                       (''aggregatable'', JBool False),
                       (''readFromDocValues'', JBool False)]]"
    by code_simp
  have 12: "template_request ?args ''t'' = Get ''http://opensearch:9200/_template/t'' []"
    by code_simp
  have 13: "sent (template_reply ?env) = 1" by (simp add: example_env_def ok_def)
  from template_merge_adds_eligible_fields[OF 1 2 3 4 5 6 7 8 9 10] 11 12 13
  show ?thesis by simp
qed

subsection \<open>Errors of the template stage\<close>

text \<open>
  Claim C7 says that an error raised while the template is fetched or parsed is caught and
  logged, that the merge is then skipped, and that the run goes on. Every exception of the
  \<^verbatim>\<open>try\<close> block is caught, so that the template stage itself never raises, and the
  merge is skipped when the error arises before the loop.
\<close>

lemma template_errors_are_caught: "\<exists>g. fst (merge_template args env st) = Inr g"
proof (cases "template args")
  case None
  then show ?thesis by (simp add: merge_template_def ret_def)
next
  case (Some t)
  let ?m = "catch (bnd (fetch_template args env t) (\<lambda>getTemplateInfo.
                  bnd (lift (py_iter getTemplateInfo)) (\<lambda>fs.
                  ret (merge_loop getTemplateInfo fs st))))
                 (\<lambda>e. ret (Some e, snd st))"
  obtain c g where m: "fst ?m = Inr (c, g)"
    by (cases "fst (bnd (fetch_template args env t) (\<lambda>getTemplateInfo.
                  bnd (lift (py_iter getTemplateInfo)) (\<lambda>fs.
                  ret (merge_loop getTemplateInfo fs st))))")
       (auto simp: fst_catch ret_def)
  with Some show ?thesis
    by (cases c) (simp_all add: merge_template_def fst_bnd ret_def eprint_def)
qed

lemma template_fetch_error_skips_merge:
  assumes "template args = Some t" and "fst (fetch_template args env t) = Inl e"
  shows "fst (merge_template args env st) = Inr (snd st)
         \<and> stderr_of (snd (merge_template args env st)) = [(skipping_message, [AExn e, AStr t])]"
proof -
  have "stderr_of (snd (fetch_template args env t)) = []"
    unfolding fetch_template_def
    by (simp add: step_simps stderr_of_append split: sum.splits option.splits)
  with assms show ?thesis
    by (simp add: merge_template_def step_simps stderr_of_append)
qed

text \<open>
  Claim C7 fails when the error arises inside the loop: the fields merged by the earlier
  iterations stay in the list. With the properties \<^verbatim>\<open>{"a": {"type": "keyword"}, "b": 5}\<close>
  the run logs the line that says the merge is skipped, and the field list it writes
  contains the template field \<open>a\<close>.
\<close>

theorem template_error_keeps_merged_fields:
  "stderr_of (snd (main (example_args (Some ''t'') False)
                     (example_env [abc123] [source_ip_field] malformed_properties)))
     = [(skipping_message, [AExn DataError, AStr ''t''])]
   \<and> written_fields (snd (main (example_args (Some ''t'') False)
                     (example_env [abc123] [source_ip_field] malformed_properties)))
     = [JArr [source_ip_field,
              JObj [(''name'', JStr ''a''),
                    (''esTypes'', JArr [JStr ''keyword'']),
                    (''type'', JStr ''string''),
                    (''searchable'', JBool True),
                    (''aggregatable'', JBool True),
                    (''readFromDocValues'', JBool True)]]]"
  by code_simp

text \<open>
  The fields left behind can also end the run. With the properties
  \<^verbatim>\<open>[1, {"type": "keyword"}]\<close> the first iteration merges a field whose name is the
  number 1, the second raises and is caught, and the drilldown loop then raises on the
  name: the exception leaves \<^verbatim>\<open>main\<close> and nothing is written or printed.
\<close>

lemma template_error_can_end_the_run:
  "main (example_args (Some ''t'') False)
     (example_env [abc123] [] (JArr [JInt 1, JObj [(''type'', JStr ''keyword'')]]))
   = (Inl DataError,
      [Call (Get ''http://dashboards:5601/dashboards/api/status'' []) 1,
       Call (Get ''http://opensearch:9200'' []) 1,
       Call (Get ''http://dashboards:5601/dashboards/api/saved_objects/_find''
          [(''type'', [''index-pattern'']), (''fields'', [''id'']),
           (''search'', [[CHR 0x22] @ ''test-*'' @ [CHR 0x22]])]) 1,
       Call (Get ''http://dashboards:5601/dashboards/api/index_patterns/_fields_for_wildcard''
          [(''pattern'', [''test-*'']),
           (''meta_fields'', [''_source'', ''_id'', ''_type'', ''_index'', ''_score''])]) 1,
       Call (Get ''http://opensearch:9200/_template/t'' []) 1,
       Stderr (skipping_message, [AExn DataError, AStr ''t''])])"
  by code_simp

end
